theory Spec2Isabelle
  imports Main "HOL-Library.Sublist"
begin

section \<open>Session-token bookkeeping of the admin dashboard\<close>

text \<open>
  The development embeds the token lifecycle code of the dashboard: the token service
  (\<^verbatim>\<open>src/services/tokenService.ts\<close>), the authentication service
  (\<^verbatim>\<open>src/services/authService.ts\<close>), the HTTP client with its two interceptors
  (\<^verbatim>\<open>api/httpClient\<close>), the Zustand authentication store (\<^verbatim>\<open>stores/authStore\<close>) and the
  token manager hook (\<^verbatim>\<open>hooks/useTokenManager\<close>).

  Conventions of the embedding:
  \<^item> All mutable state (browser storage, the store, the hook's refs, the wall clock) is one
    record \<open>world\<close> that every operation takes and returns.
  \<^item> Effects that leave the program (requests handed to the network, toasts, window events)
    are appended to logs inside \<open>world\<close>, so that "how many calls" is a property of the log.
  \<^item> Numbers are integers: timestamps are milliseconds as \<^verbatim>\<open>Date.now()\<close> gives them and
    \<^verbatim>\<open>expiresIn\<close> is a whole number of seconds; \<^verbatim>\<open>NaN\<close> is \<open>None\<close>. The code computes in
    double precision: on integers it is exact, and prints in plain decimal, only while
    every value stays a safe integer (magnitude below \<open>2 ^ 53\<close>, predicate
    \<open>safe_integer\<close>). Outside that range, and for a fractional \<^verbatim>\<open>expiresIn\<close>, the model
    says nothing about the code, and a property of the printed expiry is stated under
    that range.
  \<^item> \<^verbatim>\<open>Date.now()\<close> reads the field \<open>clock\<close>; the clock does not move inside one
    synchronous stretch of code.
  \<^item> An \<^verbatim>\<open>async\<close> function is split at its \<^verbatim>\<open>await\<close> into the code that runs before the
    request is handed to the network and the code that runs once the reply is there; the
    sequential composition of the two, against a scripted network, is the function as a whole.
  \<^item> \<^verbatim>\<open>console.log\<close>/\<^verbatim>\<open>console.error\<close> calls have no effect on the state and are left out.
\<close>

subsection \<open>JavaScript strings and numbers\<close>

text \<open>
  \<^verbatim>\<open>Number.isSafeInteger\<close>: the integers that a double holds exactly, with exact sums and
  products as long as the result is one of them.
\<close>

definition safe_integer :: "int \<Rightarrow> bool" where
  "safe_integer i = (- (2 ^ 53) < i \<and> i < 2 ^ 53)"

text \<open>
  \<^verbatim>\<open>Number.prototype.toString\<close> on a safe integer: decimal digits, a leading minus sign.
  (From \<open>10 ^ 21\<close> on JavaScript prints an exponent instead; such values are not safe
  integers.)
\<close>

definition digit_char :: "nat \<Rightarrow> char" where
  "digit_char d = char_of (48 + d)"

fun show_nat :: "nat \<Rightarrow> string" where
  "show_nat n = (if n < 10 then [digit_char n] else show_nat (n div 10) @ [digit_char (n mod 10)])"

declare show_nat.simps [simp del]

definition toString :: "int \<Rightarrow> string" where
  "toString i = (if i < 0 then CHR ''-'' # show_nat (nat (- i)) else show_nat (nat i))"

text \<open>
  \<^verbatim>\<open>parseInt(s)\<close> with no radix: leading white space is skipped, one sign is read, a
  \<^verbatim>\<open>0x\<close>/\<^verbatim>\<open>0X\<close> prefix switches to base sixteen, then the longest run of digits is read;
  no digit at all gives \<^verbatim>\<open>NaN\<close>.
\<close>

definition is_space :: "char \<Rightarrow> bool" where
  "is_space c = ((of_char c :: nat) = 32 \<or> (9 \<le> (of_char c :: nat) \<and> (of_char c :: nat) \<le> 13))"

definition is_digit :: "char \<Rightarrow> bool" where
  "is_digit c = (48 \<le> (of_char c :: nat) \<and> (of_char c :: nat) \<le> 57)"

definition digit_val :: "char \<Rightarrow> nat" where
  "digit_val c = of_char c - 48"

definition is_hex_digit :: "char \<Rightarrow> bool" where
  "is_hex_digit c = (is_digit c \<or> (65 \<le> (of_char c :: nat) \<and> (of_char c :: nat) \<le> 70)
     \<or> (97 \<le> (of_char c :: nat) \<and> (of_char c :: nat) \<le> 102))"

definition hex_val :: "char \<Rightarrow> nat" where
  "hex_val c = (if is_digit c then of_char c - 48
                else if (of_char c :: nat) \<le> 70 then of_char c - 55 else of_char c - 87)"

definition parseInt :: "string \<Rightarrow> int option" where
  "parseInt s =
     (let s1 = dropWhile is_space s;
          neg = (case s1 of [] \<Rightarrow> False | c # _ \<Rightarrow> c = CHR ''-'');
          s2 = (case s1 of [] \<Rightarrow> [] | c # r \<Rightarrow> if c = CHR ''-'' \<or> c = CHR ''+'' then r else s1);
          hex = (prefix ''0x'' s2 \<or> prefix ''0X'' s2);
          ds = (if hex then takeWhile is_hex_digit (drop 2 s2) else takeWhile is_digit s2);
          v = (if hex then foldl (\<lambda>a c. 16 * a + hex_val c) 0 ds
               else foldl (\<lambda>a c. 10 * a + digit_val c) 0 ds)
      in if ds = [] then None else Some (if neg then - int v else int v))"

text \<open>A value is falsy in a condition (\<^verbatim>\<open>!x\<close>) when it is \<^verbatim>\<open>null\<close> or the empty string.\<close>

definition truthy :: "string option \<Rightarrow> bool" where
  "truthy v = (case v of None \<Rightarrow> False | Some s \<Rightarrow> s \<noteq> [])"

text \<open>\<^verbatim>\<open>String.prototype.includes\<close>: the pattern occurs somewhere in the string.\<close>

fun str_includes :: "string \<Rightarrow> string \<Rightarrow> bool" where
  "str_includes [] pat = (pat = [])"
| "str_includes (c # cs) pat = (prefix pat (c # cs) \<or> str_includes cs pat)"

subsection \<open>HTTP requests and replies\<close>

text \<open>
  A request configuration as the interceptors see it: the URL, the \<^verbatim>\<open>Authorization\<close>
  header, the private \<^verbatim>\<open>_retry\<close> mark and, for the refresh call, the refresh token of the
  body.
\<close>

record request =
  url :: string
  authorization :: "string option"
  retry :: bool
  body :: "string option"

text \<open>
  The body of a 2xx reply. \<^verbatim>\<open>TokenData\<close> is the \<^verbatim>\<open>RefreshTokenResponse\<close> of the token
  service, \<^verbatim>\<open>LoginData\<close> the login reply with its optional \<^verbatim>\<open>tokens\<close> member.
\<close>

datatype payload =
    TokenData string string int
  | LoginData "(string \<times> string \<times> int) option"
  | NoData

text \<open>
  What a request settles with: a 2xx reply, a reply with an error status (axios rejects it,
  \<^verbatim>\<open>error.response.status\<close> is the status), or no reply at all (time-out, network error;
  \<^verbatim>\<open>error.response\<close> is undefined and \<^verbatim>\<open>error.code\<close> names the cause).
\<close>

datatype reply =
    Ok payload
  | HttpError nat
  | NetError string

text \<open>\<^verbatim>\<open>error.response?.status\<close>\<close>

fun response_status :: "reply \<Rightarrow> nat option" where
  "response_status (HttpError s) = Some s"
| "response_status _ = None"

text \<open>
  Member reads on a reply body; a member that is not there reads as \<^verbatim>\<open>undefined\<close>
  (\<open>None\<close>).
\<close>

fun data_accessToken :: "payload \<Rightarrow> string option" where
  "data_accessToken (TokenData a r e) = Some a"
| "data_accessToken _ = None"

fun data_refreshToken :: "payload \<Rightarrow> string option" where
  "data_refreshToken (TokenData a r e) = Some r"
| "data_refreshToken _ = None"

fun data_expiresIn :: "payload \<Rightarrow> int option" where
  "data_expiresIn (TokenData a r e) = Some e"
| "data_expiresIn _ = None"

fun data_tokens :: "payload \<Rightarrow> (string \<times> string \<times> int) option" where
  "data_tokens (LoginData t) = t"
| "data_tokens _ = None"

text \<open>
  An argument of \<^verbatim>\<open>localStorage.setItem\<close> is converted to a string: \<^verbatim>\<open>undefined\<close>
  becomes the text \<^verbatim>\<open>undefined\<close>, and \<^verbatim>\<open>NaN.toString()\<close> is \<^verbatim>\<open>NaN\<close>.
\<close>

definition js_string :: "string option \<Rightarrow> string" where
  "js_string v = (case v of None \<Rightarrow> ''undefined'' | Some s \<Rightarrow> s)"

definition number_toString :: "int option \<Rightarrow> string" where
  "number_toString v = (case v of None \<Rightarrow> ''NaN'' | Some i \<Rightarrow> toString i)"

subsection \<open>The state\<close>

datatype LoadingState = IDLE | LOADING | SUCCESS | ERROR

text \<open>
  The state fields of the Zustand store (\<^verbatim>\<open>AuthState\<close>); of the user object only an
  identifier is kept, none of the operations below reads more than whether it is null.
\<close>

record AuthState =
  user :: "string option"
  token :: "string option"
  isAuthenticated :: bool
  loadingState :: LoadingState
  error :: "string option"

text \<open>
  A pending \<^verbatim>\<open>setTimeout\<close> of the proactive refresh: its delay in milliseconds and the
  value of \<^verbatim>\<open>isAuthenticated\<close> that the callback's closure captured when the hook rendered.
\<close>

record timer =
  delay :: int
  captured_isAuthenticated :: bool

record world =
  localStorage :: "string \<rightharpoonup> string"
  clock :: int
  store :: AuthState
  netlog :: "request list"
  toasts :: "string list"
  events :: "string list"
  isRefreshingRef :: bool
  refreshTimeoutRef :: "timer option"
  inactivityTimeoutRef :: "int option"
  lastActivityRef :: int

definition getItem :: "world \<Rightarrow> string \<Rightarrow> string option" where
  "getItem w k = localStorage w k"

definition setItem :: "string \<Rightarrow> string \<Rightarrow> world \<Rightarrow> world" where
  "setItem k v w = w\<lparr>localStorage := (localStorage w)(k \<mapsto> v)\<rparr>"

definition removeItem :: "string \<Rightarrow> world \<Rightarrow> world" where
  "removeItem k w = w\<lparr>localStorage := (localStorage w)(k := None)\<rparr>"

text \<open>The wall clock moves between synchronous stretches of code, never backwards.\<close>

definition advance :: "nat \<Rightarrow> world \<Rightarrow> world" where
  "advance ms w = w\<lparr>clock := clock w + int ms\<rparr>"

subsection \<open>Token service\<close>

text \<open>
  \<^verbatim>\<open>
  export function isTokenExpired(): boolean {
    const expiry = localStorage.getItem('tokenExpiry');
    if (!expiry) return true;
    return Date.now() >= parseInt(expiry);
  }
  \<close>
  A comparison with \<^verbatim>\<open>NaN\<close> is false.
\<close>

definition isTokenExpired :: "world \<Rightarrow> bool" where
  "isTokenExpired w =
     (let expiry = getItem w ''tokenExpiry'' in
      if \<not> truthy expiry then True
      else (case parseInt (the expiry) of None \<Rightarrow> False | Some e \<Rightarrow> clock w \<ge> e))"

text \<open>
  \<^verbatim>\<open>
  export function getTimeUntilExpiry(): number {
    const expiry = localStorage.getItem('tokenExpiry');
    if (!expiry) return 0;
    const timeLeft = parseInt(expiry) - Date.now();
    return Math.max(0, timeLeft);
  }
  \<close>
  \<^verbatim>\<open>Math.max(0, NaN)\<close> is \<^verbatim>\<open>NaN\<close>.
\<close>

definition getTimeUntilExpiry :: "world \<Rightarrow> int option" where
  "getTimeUntilExpiry w =
     (let expiry = getItem w ''tokenExpiry'' in
      if \<not> truthy expiry then Some 0
      else (case parseInt (the expiry) of None \<Rightarrow> None
            | Some e \<Rightarrow> (let timeLeft = e - clock w in Some (max 0 timeLeft))))"

text \<open>
  \<^verbatim>\<open>
  export function storeTokens(accessToken, refreshToken, expiresIn): void {
    localStorage.setItem('accessToken', accessToken);
    localStorage.setItem('refreshToken', refreshToken);
    localStorage.setItem('tokenExpiry', (Date.now() + (expiresIn * 1000)).toString());
  }
  \<close>
  The arguments are optional in the model because one caller passes members of a reply body
  unchecked. The expiry is the code's \<^verbatim>\<open>Date.now() + expiresIn * 1000\<close> when
  \<^verbatim>\<open>expiresIn\<close> is a whole number and the clock, the product and the sum are safe
  integers.
\<close>

definition expiry_string :: "world \<Rightarrow> int option \<Rightarrow> string" where
  "expiry_string w expiresIn = number_toString (map_option (\<lambda>e. clock w + e * 1000) expiresIn)"

definition storeTokens :: "string option \<Rightarrow> string option \<Rightarrow> int option \<Rightarrow> world \<Rightarrow> world" where
  "storeTokens accessToken refreshToken expiresIn w =
     setItem ''tokenExpiry'' (expiry_string w expiresIn)
       (setItem ''refreshToken'' (js_string refreshToken)
         (setItem ''accessToken'' (js_string accessToken) w))"

text \<open>
  \<^verbatim>\<open>
  export function clearTokens(): void {
    localStorage.removeItem('accessToken');
    localStorage.removeItem('refreshToken');
    localStorage.removeItem('tokenExpiry');
  }
  \<close>
\<close>

definition clearTokens :: "world \<Rightarrow> world" where
  "clearTokens w = removeItem ''tokenExpiry'' (removeItem ''refreshToken'' (removeItem ''accessToken'' w))"

subsection \<open>Authentication store\<close>

text \<open>How an \<^verbatim>\<open>async\<close> function or a \<^verbatim>\<open>try\<close> body ends: a value or a thrown \<^verbatim>\<open>Error\<close>.\<close>

datatype 'a completion = Returns 'a | Throws string

text \<open>
  \<^verbatim>\<open>
  logout: () => {
    localStorage.removeItem('accessToken');
    localStorage.removeItem('refreshToken');
    localStorage.removeItem('tokenExpiry');
    set({ user: null, token: null, isAuthenticated: false,
          loadingState: LoadingState.IDLE, error: null });
  }
  \<close>
\<close>

definition store_logout :: "world \<Rightarrow> world" where
  "store_logout w =
     (let w1 = removeItem ''accessToken'' w;
          w2 = removeItem ''refreshToken'' w1;
          w3 = removeItem ''tokenExpiry'' w2
      in w3\<lparr>store := \<lparr>user = None, token = None, isAuthenticated = False,
                        loadingState = IDLE, error = None\<rparr>\<rparr>)"

text \<open>
  \<^verbatim>\<open>
  refreshToken: async () => {
    try {
      const refreshToken = localStorage.getItem('refreshToken');
      if (!refreshToken) { throw new Error('No refresh token available'); }
      // Mock refresh
      const newToken = 'mock-jwt-token-' + Date.now();
      localStorage.setItem('accessToken', newToken);
      localStorage.setItem('tokenExpiry', (Date.now() + (3600 * 1000)).toString());
      set({ token: newToken });
    } catch (error) {
      get().logout();
      throw error;
    }
  }
  \<close>
\<close>

definition store_refreshToken :: "world \<Rightarrow> world \<times> unit completion" where
  "store_refreshToken w =
     (let refreshToken = getItem w ''refreshToken'' in
      if \<not> truthy refreshToken then (store_logout w, Throws ''No refresh token available'')
      else
        (let newToken = ''mock-jwt-token-'' @ toString (clock w);
             w1 = setItem ''accessToken'' newToken w;
             w2 = setItem ''tokenExpiry'' (toString (clock w1 + 3600 * 1000)) w1
         in (w2\<lparr>store := (store w2)\<lparr>token := Some newToken\<rparr>\<rparr>, Returns ())))"

subsection \<open>HTTP client\<close>

text \<open>
  The network is scripted: \<open>net i c\<close> is what the \<open>i\<close>-th request handed to the network
  settles with when that request is \<open>c\<close>.
\<close>

type_synonym network = "nat \<Rightarrow> request \<Rightarrow> reply"

datatype result = Resolved payload | Rejected reply

text \<open>
  The request interceptor:
  \<^verbatim>\<open>
  (config) => {
    const token = localStorage.getItem("accessToken");
    if (token) { config.headers.Authorization = `Bearer ${token}`; }
    return config;
  }
  \<close>
\<close>

text \<open>The template literal \<^verbatim>\<open>`Bearer ${token}`\<close>.\<close>

definition bearer :: "string \<Rightarrow> string" where
  "bearer tok = ''Bearer '' @ tok"

definition onRequest :: "world \<Rightarrow> request \<Rightarrow> request" where
  "onRequest w config =
     (let tok = getItem w ''accessToken'' in
      if truthy tok then config\<lparr>authorization := Some (bearer (the tok))\<rparr> else config)"

text \<open>Up to the network: the request interceptor runs and the request is handed over.\<close>

definition send :: "request \<Rightarrow> world \<Rightarrow> request \<times> world" where
  "send config w = (let c = onRequest w config in (c, w\<lparr>netlog := netlog w @ [c]\<rparr>))"

text \<open>\<^verbatim>\<open>httpClient.post("/auth/tokens/refresh", { refreshToken })\<close>\<close>

definition refreshRequest :: "string \<Rightarrow> request" where
  "refreshRequest refreshToken =
     \<lparr>url = ''/auth/tokens/refresh'', authorization = None, retry = False, body = Some refreshToken\<rparr>"

text \<open>
  The \<^verbatim>\<open>catch (refreshError)\<close> block of the response interceptor:
  \<^verbatim>\<open>
  localStorage.removeItem("accessToken");
  localStorage.removeItem("refreshToken");
  localStorage.removeItem("tokenExpiry");
  window.dispatchEvent(new CustomEvent("auth:session-expired"));
  return Promise.reject(error);
  \<close>
  The dispatch is recorded in \<open>events\<close>; listeners are not run by the model.
\<close>

definition refresh_failed :: "world \<Rightarrow> world" where
  "refresh_failed w =
     (let w1 = removeItem ''accessToken'' w;
          w2 = removeItem ''refreshToken'' w1;
          w3 = removeItem ''tokenExpiry'' w2
      in w3\<lparr>events := events w3 @ [''auth:session-expired'']\<rparr>)"

text \<open>
  The response interceptor's error handler up to its first \<^verbatim>\<open>await\<close>:
  \<^verbatim>\<open>
  async (error) => {
    const originalRequest = error.config;
    if ((error.response?.status === 401 || error.response?.status === 403)
        && !originalRequest._retry) {
      originalRequest._retry = true;
      if (originalRequest.url?.includes("/auth/")) { return Promise.reject(error); }
      try {
        const refreshToken = localStorage.getItem("refreshToken");
        if (!refreshToken) { throw new Error("No refresh token available"); }
        const refreshResponse = await httpClient.post("/auth/tokens/refresh", { refreshToken });
        ...
      } catch (refreshError) { ... }
    }
    ...
    return Promise.reject(error);
  }
  \<close>
  It either rejects with the error it was given or goes on to post the refresh request.
\<close>

datatype rejected_step = Reject reply | RefreshFirst request request

definition onRejected :: "reply \<Rightarrow> request \<Rightarrow> world \<Rightarrow> world \<times> rejected_step" where
  "onRejected err originalRequest w =
     (if (response_status err = Some 401 \<or> response_status err = Some 403)
         \<and> \<not> retry originalRequest
      then
        (let originalRequest = originalRequest\<lparr>retry := True\<rparr> in
         if str_includes (url originalRequest) ''/auth/'' then (w, Reject err)
         else
           (let refreshToken = getItem w ''refreshToken'' in
            if \<not> truthy refreshToken then (refresh_failed w, Reject err)
            else (w, RefreshFirst originalRequest (refreshRequest (the refreshToken)))))
      else (w, Reject err))"

text \<open>
  The handler after \<^verbatim>\<open>await httpClient.post("/auth/tokens/refresh", ...)\<close> has settled:
  \<^verbatim>\<open>
        if (refreshResponse.data.accessToken) {
          localStorage.setItem("accessToken", refreshResponse.data.accessToken);
          localStorage.setItem("refreshToken", refreshResponse.data.refreshToken);
          localStorage.setItem("tokenExpiry",
            (Date.now() + refreshResponse.data.expiresIn * 1000).toString());
          originalRequest.headers.Authorization = `Bearer ${refreshResponse.data.accessToken}`;
          return httpClient(originalRequest);
        }
      } catch (refreshError) {
        (the block above)
      }
    }
    ...
    return Promise.reject(error);
  \<close>
\<close>

datatype refreshed_step = GiveUp reply | Retry request

definition onRefreshSettled ::
  "result \<Rightarrow> reply \<Rightarrow> request \<Rightarrow> world \<Rightarrow> world \<times> refreshed_step" where
  "onRefreshSettled refreshResponse err originalRequest w =
     (case refreshResponse of
        Resolved d \<Rightarrow>
          if truthy (data_accessToken d) then
            (let w1 = setItem ''accessToken'' (js_string (data_accessToken d)) w;
                 w2 = setItem ''refreshToken'' (js_string (data_refreshToken d)) w1;
                 w3 = setItem ''tokenExpiry'' (expiry_string w2 (data_expiresIn d)) w2
             in (w3, Retry (originalRequest\<lparr>authorization :=
                               Some (bearer (the (data_accessToken d)))\<rparr>)))
          else (w, GiveUp err)
      | Rejected refreshError \<Rightarrow> (refresh_failed w, GiveUp err))"

text \<open>
  The client itself. \<open>httpClient\<close> sends a request and waits for it to settle;
  \<open>receive\<close> is the part after the network: the reply of the \<open>i\<close>-th request passes the
  response interceptor, which may call the client again (the refresh post, then the
  replay of the original request). A request that carries the \<^verbatim>\<open>_retry\<close> mark or goes to an
  \<^verbatim>\<open>/auth/\<close> URL never causes a further call, which is why the recursion ends.
\<close>

definition call_rank :: "request \<Rightarrow> nat" where
  "call_rank c = (if retry c then 0 else if str_includes (url c) ''/auth/'' then 1 else 2)"

lemma onRequest_same: "url (onRequest w config) = url config" "retry (onRequest w config) = retry config"
  "body (onRequest w config) = body config"
  by (simp_all add: onRequest_def Let_def)

lemma call_rank_onRequest: "call_rank (onRequest w config) = call_rank config"
  by (simp add: call_rank_def onRequest_same)

lemma onRejected_RefreshFirst:
  "onRejected err c w = (w2, RefreshFirst originalRequest refreshReq) \<Longrightarrow>
     call_rank c = 2 \<and> retry originalRequest \<and> call_rank refreshReq = 1"
  by (auto simp: onRejected_def call_rank_def refreshRequest_def Let_def split: if_splits)

lemma onRefreshSettled_Retry:
  "onRefreshSettled r err originalRequest w = (w4, Retry replay) \<Longrightarrow>
     retry replay = retry originalRequest"
  by (auto simp: onRefreshSettled_def Let_def split: result.splits if_splits)

lemma rank_refresh:
  "(w2, RefreshFirst originalRequest refreshReq) = onRejected err c w \<Longrightarrow>
     Suc (2 * call_rank refreshReq) < 2 * call_rank c"
  using onRejected_RefreshFirst [of err c w w2 originalRequest refreshReq] by simp

lemma rank_retry:
  "(w2, RefreshFirst originalRequest refreshReq) = onRejected err c w \<Longrightarrow>
   (w4, Retry replay) = onRefreshSettled r err originalRequest w3 \<Longrightarrow>
     Suc (2 * call_rank replay) < 2 * call_rank c"
  using onRejected_RefreshFirst [of err c w w2 originalRequest refreshReq]
    onRefreshSettled_Retry [of r err originalRequest w3 w4 replay]
  by (simp add: call_rank_def)

function httpClient :: "network \<Rightarrow> request \<Rightarrow> world \<Rightarrow> world \<times> result"
  and receive :: "network \<Rightarrow> nat \<Rightarrow> request \<Rightarrow> world \<Rightarrow> world \<times> result" where
  "httpClient net config w =
     (case send config w of (c, w1) \<Rightarrow> receive net (length (netlog w)) c w1)"
| "receive net i c w =
     (let err = net i c in
      case err of
        Ok d \<Rightarrow> (w, Resolved d)
      | _ \<Rightarrow>
        (case onRejected err c w of
           (w2, Reject e) \<Rightarrow> (w2, Rejected e)
         | (w2, RefreshFirst originalRequest refreshReq) \<Rightarrow>
             (case httpClient net refreshReq w2 of
                (w3, refreshResponse) \<Rightarrow>
                  (case onRefreshSettled refreshResponse err originalRequest w3 of
                     (w4, GiveUp e) \<Rightarrow> (w4, Rejected e)
                   | (w4, Retry replay) \<Rightarrow> httpClient net replay w4))))"
  by pat_completeness auto

termination
proof (relation "measure (\<lambda>x. case x of
          Inl (net, config, w) \<Rightarrow> 2 * call_rank config + 1
        | Inr (net, i, c, w) \<Rightarrow> 2 * call_rank c)", goal_cases)
  case 1
  show ?case by simp
next
  case (2 net config w c w1)
  then show ?case by (simp add: send_def Let_def call_rank_onRequest)
next
  case 3
  then show ?case by (auto intro: rank_refresh)
next
  case 4
  then show ?case by (auto intro: rank_retry)
next
  case 5
  then show ?case by (auto intro: rank_refresh)
next
  case 6
  then show ?case by (auto intro: rank_retry)
qed

declare httpClient.simps [simp del] receive.simps [simp del]
subsection \<open>Authentication service\<close>

definition loginRequest :: "string \<Rightarrow> request" where
  "loginRequest payload =
     \<lparr>url = ''/auth/login'', authorization = None, retry = False, body = Some payload\<rparr>"

text \<open>
  The messages the \<^verbatim>\<open>catch\<close> block of \<^verbatim>\<open>login\<close> throws. \<^verbatim>\<open>error.code\<close> and
  \<^verbatim>\<open>error.message\<close> are what axios sets: for a reply with an error status the message is
  \<^verbatim>\<open>Request failed with status code N\<close>; without a reply the code names the cause and
  stands for the message here.
\<close>

fun error_code :: "reply \<Rightarrow> string option" where
  "error_code (NetError code) = Some code"
| "error_code _ = None"

fun error_message :: "reply \<Rightarrow> string" where
  "error_message (HttpError s) = ''Request failed with status code '' @ show_nat s"
| "error_message (NetError code) = code"
| "error_message (Ok d) = []"

definition login_error :: "reply \<Rightarrow> string" where
  "login_error err =
     (if response_status err = Some 401 then ''Invalid email or password''
      else if response_status err = Some 422 then ''Invalid request format''
      else if (case response_status err of None \<Rightarrow> False | Some s \<Rightarrow> s \<ge> 500)
        then ''Server error. Please try again later.''
      else if error_code err = Some ''ECONNABORTED''
        then ''Request timeout. Please check your connection.''
      else if error_code err = Some ''ERR_NETWORK''
        then ''Network error. Please check CORS settings on the server.''
      else if error_message err = [] then ''Login failed'' else error_message err)"

text \<open>
  \<^verbatim>\<open>
  export async function login(payload) {
    try {
      const response = await httpClient.post('/auth/login', payload);
      if (response.data.tokens) {
        localStorage.setItem('accessToken', response.data.tokens.accessToken);
        localStorage.setItem('refreshToken', response.data.tokens.refreshToken);
        localStorage.setItem('tokenExpiry',
          (Date.now() + (response.data.tokens.expiresIn * 1000)).toString());
      }
      return response.data;
    } catch (error) { ... throw new Error(...) }
  }
  \<close>
\<close>

definition login :: "network \<Rightarrow> string \<Rightarrow> world \<Rightarrow> world \<times> payload completion" where
  "login net payload w =
     (case httpClient net (loginRequest payload) w of
        (w1, Resolved d) \<Rightarrow>
          (case data_tokens d of
             Some (accessToken, refreshToken, expiresIn) \<Rightarrow>
               (let w2 = setItem ''accessToken'' accessToken w1;
                    w3 = setItem ''refreshToken'' refreshToken w2;
                    w4 = setItem ''tokenExpiry'' (toString (clock w3 + expiresIn * 1000)) w3
                in (w4, Returns d))
           | None \<Rightarrow> (w1, Returns d))
      | (w1, Rejected err) \<Rightarrow> (w1, Throws (login_error err)))"

text \<open>
  \<^verbatim>\<open>
  export async function logout() {
    localStorage.removeItem('accessToken');
    localStorage.removeItem('refreshToken');
    localStorage.removeItem('tokenExpiry');
  }
  \<close>
\<close>

definition logout :: "world \<Rightarrow> world" where
  "logout w = removeItem ''tokenExpiry'' (removeItem ''refreshToken'' (removeItem ''accessToken'' w))"

text \<open>
  \<^verbatim>\<open>
  export async function refreshToken(): Promise<string | null> {
    try {
      const refreshToken = localStorage.getItem('refreshToken');
      if (!refreshToken) { throw new Error('No refresh token available'); }
      const response = await httpClient.post('/auth/tokens/refresh', { refreshToken });
      if (response.data.accessToken) {
        localStorage.setItem('accessToken', response.data.accessToken);
        localStorage.setItem('refreshToken', response.data.refreshToken);
        localStorage.setItem('tokenExpiry',
          (Date.now() + (response.data.expiresIn * 1000)).toString());
        return response.data.accessToken;
      }
      return null;
    } catch (error) {
      // Clear tokens on refresh failure
      localStorage.removeItem('accessToken');
      localStorage.removeItem('refreshToken');
      localStorage.removeItem('tokenExpiry');
      return null;
    }
  }
  \<close>
\<close>

definition refreshToken :: "network \<Rightarrow> world \<Rightarrow> world \<times> string option" where
  "refreshToken net w =
     (let rt = getItem w ''refreshToken'' in
      if \<not> truthy rt then (logout w, None)
      else
        (case httpClient net (refreshRequest (the rt)) w of
           (w1, Resolved d) \<Rightarrow>
             if truthy (data_accessToken d) then
               (let w2 = setItem ''accessToken'' (js_string (data_accessToken d)) w1;
                    w3 = setItem ''refreshToken'' (js_string (data_refreshToken d)) w2;
                    w4 = setItem ''tokenExpiry'' (expiry_string w3 (data_expiresIn d)) w3
                in (w4, data_accessToken d))
             else (w1, None)
         | (w1, Rejected err) \<Rightarrow> (logout w1, None)))"

text \<open>
  \<^verbatim>\<open>
  export async function enhancedLogout(revokeAll = false) {
    try {
      if (revokeAll) { await httpClient.delete('/auth/tokens/revoke-all'); }
      else { await httpClient.delete('/auth/tokens/revoke-session'); }
    } catch (error) { console.warn(...); }
    finally { (the three removeItem calls) }
  }
  \<close>
\<close>

definition revokeRequest :: "bool \<Rightarrow> request" where
  "revokeRequest revokeAll =
     \<lparr>url = (if revokeAll then ''/auth/tokens/revoke-all'' else ''/auth/tokens/revoke-session''),
      authorization = None, retry = False, body = None\<rparr>"

definition enhancedLogout :: "network \<Rightarrow> bool \<Rightarrow> world \<Rightarrow> world" where
  "enhancedLogout net revokeAll w =
     (case httpClient net (revokeRequest revokeAll) w of (w1, _) \<Rightarrow> logout w1)"

subsection \<open>Token manager hook\<close>

definition INACTIVITY_TIMEOUT :: int where
  "INACTIVITY_TIMEOUT = 15 * 60 * 1000"

definition TOKEN_REFRESH_BUFFER :: int where
  "TOKEN_REFRESH_BUFFER = 2 * 60 * 1000"

text \<open>
  \<^verbatim>\<open>
  const updateActivity = useCallback(() => {
    lastActivityRef.current = Date.now();
    if (inactivityTimeoutRef.current) { clearTimeout(inactivityTimeoutRef.current); }
    inactivityTimeoutRef.current = setTimeout(() => { }, INACTIVITY_TIMEOUT);
  }, []);
  \<close>
\<close>

definition updateActivity :: "world \<Rightarrow> world" where
  "updateActivity w = w\<lparr>lastActivityRef := clock w, inactivityTimeoutRef := Some INACTIVITY_TIMEOUT\<rparr>"

text \<open>\<^verbatim>\<open>refreshAccessToken\<close> of the token service posts the refresh request and returns the body.\<close>

definition refreshAccessToken :: "network \<Rightarrow> string \<Rightarrow> world \<Rightarrow> world \<times> result" where
  "refreshAccessToken net rt w = httpClient net (refreshRequest rt) w"

text \<open>
  The \<^verbatim>\<open>catch\<close> and \<^verbatim>\<open>finally\<close> blocks of \<^verbatim>\<open>performTokenRefresh\<close>; \<open>status\<close> is
  \<^verbatim>\<open>error.response?.status\<close>, undefined for an error that carries no reply.
  \<^verbatim>\<open>
    } catch (error: any) {
      if (error.response?.status === 401 || error.response?.status === 403) {
        toast({ title: 'Session Expired', ... });
        logout();
        return false;
      }
      return false;
    } finally {
      isRefreshingRef.current = false;
    }
  \<close>
  \<^verbatim>\<open>logout\<close> is the store's action here.
\<close>

definition performTokenRefresh_catch :: "nat option \<Rightarrow> world \<Rightarrow> world \<times> bool" where
  "performTokenRefresh_catch status w =
     (if status = Some 401 \<or> status = Some 403 then
        (let w1 = w\<lparr>toasts := toasts w @ [''Session Expired'']\<rparr>;
             w2 = store_logout w1
         in (w2\<lparr>isRefreshingRef := False\<rparr>, False))
      else (w\<lparr>isRefreshingRef := False\<rparr>, False))"

text \<open>
  \<^verbatim>\<open>performTokenRefresh\<close> once \<^verbatim>\<open>await refreshAccessToken(refreshToken)\<close> has settled:
  \<^verbatim>\<open>
      storeTokens(response.accessToken, response.refreshToken, response.expiresIn);
      return true;
  \<close>
  or the \<^verbatim>\<open>catch\<close> block, and \<^verbatim>\<open>finally\<close> in both cases.
\<close>

definition performTokenRefresh_resume :: "result \<Rightarrow> world \<Rightarrow> world \<times> bool" where
  "performTokenRefresh_resume response w =
     (case response of
        Resolved d \<Rightarrow>
          (let w1 = storeTokens (data_accessToken d) (data_refreshToken d) (data_expiresIn d) w
           in (w1\<lparr>isRefreshingRef := False\<rparr>, True))
      | Rejected err \<Rightarrow> performTokenRefresh_catch (response_status err) w)"

text \<open>
  \<^verbatim>\<open>performTokenRefresh\<close> up to the point where the refresh request is with the network:
  \<^verbatim>\<open>
  const performTokenRefresh = useCallback(async (): Promise<boolean> => {
    if (isRefreshingRef.current) { return false; }
    isRefreshingRef.current = true;
    try {
      const refreshToken = localStorage.getItem('refreshToken');
      if (!refreshToken) { throw new Error('No refresh token available'); }
      const response = await refreshAccessToken(refreshToken);
  \<close>
  It has either returned already or waits for the request it sent.
\<close>

datatype 'a pending = Done 'a | Awaiting request

definition performTokenRefresh_begin :: "world \<Rightarrow> world \<times> bool pending" where
  "performTokenRefresh_begin w =
     (if isRefreshingRef w then (w, Done False)
      else
        (let w1 = w\<lparr>isRefreshingRef := True\<rparr>;
             rt = getItem w1 ''refreshToken''
         in if \<not> truthy rt then
              (case performTokenRefresh_catch None w1 of (w2, b) \<Rightarrow> (w2, Done b))
            else (case send (refreshRequest (the rt)) w1 of (c, w2) \<Rightarrow> (w2, Awaiting c))))"

text \<open>The whole function, run without interleaving against the scripted network.\<close>

definition performTokenRefresh :: "network \<Rightarrow> world \<Rightarrow> world \<times> bool" where
  "performTokenRefresh net w =
     (if isRefreshingRef w then (w, False)
      else
        (let w1 = w\<lparr>isRefreshingRef := True\<rparr>;
             rt = getItem w1 ''refreshToken''
         in if \<not> truthy rt then performTokenRefresh_catch None w1
            else (case refreshAccessToken net (the rt) w1 of
                    (w2, response) \<Rightarrow> performTokenRefresh_resume response w2)))"

text \<open>
  \<^verbatim>\<open>
  const scheduleTokenRefresh = useCallback(() => {
    if (refreshTimeoutRef.current) { clearTimeout(refreshTimeoutRef.current); }
    if (!isAuthenticated) { return; }
    const timeUntilExpiry = getTimeUntilExpiry();
    const refreshTime = Math.max(0, timeUntilExpiry - TOKEN_REFRESH_BUFFER);
    refreshTimeoutRef.current = setTimeout(async () => {
      await performTokenRefresh();
      scheduleTokenRefresh(); // Schedule next refresh
    }, refreshTime);
  }, [isAuthenticated, performTokenRefresh]);
  \<close>
  \<^verbatim>\<open>isAuthenticated\<close> is not read from the store when the callback runs: it is the
  \<^verbatim>\<open>const\<close> that the hook body destructured from \<^verbatim>\<open>useAuthStore()\<close> in the render that
  created the callback, and a later \<^verbatim>\<open>logout()\<close> does not change it. It is therefore a
  parameter of the model. The function that the timer's callback calls as
  \<^verbatim>\<open>scheduleTokenRefresh\<close> is the binding of that same render, that is a callback with the
  same dependency \<^verbatim>\<open>isAuthenticated\<close>; so the timer records the value and its callback
  passes it on. \<open>refreshTimeoutRef\<close> holds the pending timer, if any (clearing a timer
  that has fired does nothing); a delay of \<^verbatim>\<open>NaN\<close> counts as 0.
\<close>

definition scheduleTokenRefresh :: "bool \<Rightarrow> world \<Rightarrow> world" where
  "scheduleTokenRefresh isAuth w =
     (let w1 = w\<lparr>refreshTimeoutRef := None\<rparr> in
      if \<not> isAuth then w1
      else
        (let timeUntilExpiry = getTimeUntilExpiry w1;
             refreshTime = map_option (\<lambda>t. max 0 (t - TOKEN_REFRESH_BUFFER)) timeUntilExpiry
         in w1\<lparr>refreshTimeoutRef :=
                 Some \<lparr>delay = (case refreshTime of None \<Rightarrow> 0 | Some d \<Rightarrow> d),
                       captured_isAuthenticated = isAuth\<rparr>\<rparr>))"

text \<open>
  The callback handed to \<^verbatim>\<open>setTimeout\<close>:
  \<^verbatim>\<open>async () => { await performTokenRefresh(); scheduleTokenRefresh(); }\<close>.
  The result of the refresh is not looked at.
\<close>

definition refreshTimerCallback :: "network \<Rightarrow> bool \<Rightarrow> world \<Rightarrow> world" where
  "refreshTimerCallback net isAuth w =
     (case performTokenRefresh net w of (w1, refreshed) \<Rightarrow> scheduleTokenRefresh isAuth w1)"

text \<open>The pending proactive timer expires: it is gone and its callback runs.\<close>

definition fireRefreshTimer :: "network \<Rightarrow> world \<Rightarrow> world" where
  "fireRefreshTimer net w =
     (case refreshTimeoutRef w of
        None \<Rightarrow> w
      | Some t \<Rightarrow> refreshTimerCallback net (captured_isAuthenticated t) (w\<lparr>refreshTimeoutRef := None\<rparr>))"

text \<open>
  \<^verbatim>\<open>
  const handleActivity = useCallback(async () => {
    updateActivity();
    if (!isAuthenticated) { return; }
    if (isTokenExpired()) {
      const refreshed = await performTokenRefresh();
      if (refreshed) { scheduleTokenRefresh(); }
    }
  }, [...]);
  \<close>
\<close>

definition handleActivity :: "network \<Rightarrow> bool \<Rightarrow> world \<Rightarrow> world" where
  "handleActivity net isAuth w =
     (let w1 = updateActivity w in
      if \<not> isAuth then w1
      else if isTokenExpired w1 then
        (case performTokenRefresh net w1 of
           (w2, refreshed) \<Rightarrow> if refreshed then scheduleTokenRefresh isAuth w2 else w2)
      else w1)"

text \<open>
  The hook's effect for a render with \<^verbatim>\<open>isAuthenticated\<close> false, and the cleanup of the
  effect of an authenticated render, both clear the two timeouts:
  \<^verbatim>\<open>
      if (refreshTimeoutRef.current) { clearTimeout(refreshTimeoutRef.current); }
      if (inactivityTimeoutRef.current) { clearTimeout(inactivityTimeoutRef.current); }
  \<close>
  When a re-render runs them is up to React; the model only says what they do.
\<close>

definition clearTimeouts :: "world \<Rightarrow> world" where
  "clearTimeouts w = w\<lparr>refreshTimeoutRef := None, inactivityTimeoutRef := None\<rparr>"

text \<open>
  How a request settles when the response interceptor does not step in: a 2xx reply
  resolves, anything else rejects with the error.
\<close>

definition settle :: "reply \<Rightarrow> result" where
  "settle r = (case r of Ok d \<Rightarrow> Resolved d | _ \<Rightarrow> Rejected r)"


subsection \<open>A session to run the code on, and the stored triple\<close>

text \<open>
  A logged-in session at clock 1000000 whose access token expires at 1300000.
\<close>

definition session :: world where
  "session =
     \<lparr>localStorage = [''accessToken'' \<mapsto> ''access-1'', ''refreshToken'' \<mapsto> ''refresh-1'',
                       ''tokenExpiry'' \<mapsto> ''1300000''],
      clock = 1000000,
      store = \<lparr>user = Some ''admin'', token = Some ''access-1'', isAuthenticated = True,
                loadingState = SUCCESS, error = None\<rparr>,
      netlog = [], toasts = [], events = [],
      isRefreshingRef = False, refreshTimeoutRef = None, inactivityTimeoutRef = None,
      lastActivityRef = 0\<rparr>"

text \<open>The stored credential triple: access token, refresh token, expiry.\<close>

definition credentials :: "world \<Rightarrow> string option \<times> string option \<times> string option" where
  "credentials w = (getItem w ''accessToken'', getItem w ''refreshToken'', getItem w ''tokenExpiry'')"

text \<open>
  The triple that one issuance writes: the two tokens as \<^verbatim>\<open>setItem\<close> stores them and the
  expiry computed from the clock of \<open>w\<close>.
\<close>

definition issued :: "string option \<Rightarrow> string option \<Rightarrow> int option \<Rightarrow> world
    \<Rightarrow> string option \<times> string option \<times> string option" where
  "issued a r e w = (Some (js_string a), Some (js_string r), Some (expiry_string w e))"


text \<open>How many requests of a log went to a given URL.\<close>

definition calls_to :: "string \<Rightarrow> request list \<Rightarrow> nat" where
  "calls_to u log = length (filter (\<lambda>q. url q = u) log)"

text \<open>A request to an endpoint outside \<^verbatim>\<open>/auth/\<close>: the user service's \<^verbatim>\<open>httpClient.get('/users', ...)\<close>.\<close>

definition usersRequest :: request where
  "usersRequest = \<lparr>url = ''/users'', authorization = None, retry = False, body = None\<rparr>"

text \<open>
  A network that answers 401 to everything except the second request it is handed, which
  it answers with a fresh token pair valid for sixty seconds.
\<close>

definition unauthorized_network :: network where
  "unauthorized_network = (\<lambda>i c. if i = 1 then Ok (TokenData ''access-2'' ''refresh-2'' 60) else HttpError 401)"

text \<open>The example session with the proactive timer armed by an authenticated render.\<close>

definition armed_session :: world where
  "armed_session = scheduleTokenRefresh True session"


section \<open>Properties\<close>

subsection \<open>Decimal rendering and parsing agree\<close>

lemma of_char_digit_char: "d < 10 \<Longrightarrow> (of_char (digit_char d) :: nat) = 48 + d"
  unfolding digit_char_def by (simp only: of_char_of) simp

lemma is_digit_digit_char: "d < 10 \<Longrightarrow> is_digit (digit_char d)"
  by (simp add: is_digit_def of_char_digit_char)

lemma digit_val_digit_char: "d < 10 \<Longrightarrow> digit_val (digit_char d) = d"
  by (simp add: digit_val_def of_char_digit_char)

lemma show_nat_digits: "c \<in> set (show_nat n) \<Longrightarrow> is_digit c"
proof (induction n arbitrary: c rule: show_nat.induct)
  case (1 n)
  show ?case
  proof (cases "n < 10")
    case True
    with "1.prems" show ?thesis
      by (subst (asm) show_nat.simps) (simp add: is_digit_digit_char)
  next
    case False
    from "1.prems" have "c \<in> set (show_nat (n div 10)) \<or> c = digit_char (n mod 10)"
      by (subst (asm) show_nat.simps) (auto simp: False)
    then show ?thesis
      using "1.IH" [OF False] by (auto simp: is_digit_digit_char)
  qed
qed

lemma show_nat_nonempty: "show_nat n \<noteq> []"
  by (subst show_nat.simps) simp

lemma show_nat_value: "foldl (\<lambda>a c. 10 * a + digit_val c) 0 (show_nat n) = n"
proof (induction n rule: show_nat.induct)
  case (1 n)
  show ?case
  proof (cases "n < 10")
    case True
    then show ?thesis by (subst show_nat.simps) (simp add: digit_val_digit_char)
  next
    case False
    with 1 show ?thesis by (subst show_nat.simps) (simp add: digit_val_digit_char)
  qed
qed

lemma takeWhile_show_nat: "takeWhile is_digit (show_nat n) = show_nat n"
  by (simp add: show_nat_digits)

lemma digit_not_space: "is_digit c \<Longrightarrow> \<not> is_space c"
  by (auto simp: is_digit_def is_space_def)

lemma digit_not_sign: "is_digit c \<Longrightarrow> c \<noteq> CHR ''-'' \<and> c \<noteq> CHR ''+''"
  by (auto simp: is_digit_def)

lemma digit_not_x: "is_digit c \<Longrightarrow> c \<noteq> CHR ''x'' \<and> c \<noteq> CHR ''X''"
  by (auto simp: is_digit_def)

lemma show_nat_no_hex_prefix: "\<not> prefix ''0x'' (show_nat n) \<and> \<not> prefix ''0X'' (show_nat n)"
proof -
  have "\<not> prefix [a, b] (show_nat n)" if "\<not> is_digit b" for a b
  proof
    assume "prefix [a, b] (show_nat n)"
    then obtain zs where "show_nat n = [a, b] @ zs" by (auto simp: prefix_def)
    then have "b \<in> set (show_nat n)" by simp
    with that show False by (auto dest: show_nat_digits)
  qed
  then show ?thesis using digit_not_x by blast
qed

lemma parseInt_decimal:
  assumes ne: "s \<noteq> []" and dg: "\<And>c. c \<in> set s \<Longrightarrow> is_digit c"
    and nh: "\<not> prefix ''0x'' s" "\<not> prefix ''0X'' s"
  shows "parseInt s = Some (int (foldl (\<lambda>a c. 10 * a + digit_val c) 0 s))"
    and "parseInt (CHR ''-'' # s) = Some (- int (foldl (\<lambda>a c. 10 * a + digit_val c) 0 s))"
proof -
  obtain c cs where cs: "s = c # cs" using ne by (cases s) auto
  have dc: "is_digit c" using dg [of c] cs by simp
  have s1: "dropWhile is_space s = s" using dc by (simp add: cs digit_not_space)
  have tw: "takeWhile is_digit s = s" using dg by simp
  have hd: "(case s of [] \<Rightarrow> False | c # _ \<Rightarrow> c = CHR ''-'') = False"
    using digit_not_sign [OF dc] by (simp add: cs)
  have tl: "(case s of [] \<Rightarrow> [] | c # r \<Rightarrow> if c = CHR ''-'' \<or> c = CHR ''+'' then r else s) = s"
    using digit_not_sign [OF dc] by (simp add: cs)
  show "parseInt s = Some (int (foldl (\<lambda>a c. 10 * a + digit_val c) 0 s))"
    unfolding parseInt_def Let_def s1 hd tl tw using nh ne by simp
  have sp: "dropWhile is_space (CHR ''-'' # s) = CHR ''-'' # s" by (simp add: is_space_def)
  show "parseInt (CHR ''-'' # s) = Some (- int (foldl (\<lambda>a c. 10 * a + digit_val c) 0 s))"
    unfolding parseInt_def Let_def sp using nh ne by (simp add: tw)
qed

lemma parseInt_show_nat:
  "parseInt (show_nat n) = Some (int n)"
  "parseInt (CHR ''-'' # show_nat n) = Some (- int n)"
  using parseInt_decimal [of "show_nat n"] show_nat_nonempty [of n] show_nat_digits [of _ n]
    show_nat_no_hex_prefix [of n]
  by (simp_all add: show_nat_value)

lemma parseInt_toString: "parseInt (toString i) = Some i"
  by (simp add: toString_def parseInt_show_nat)

lemma toString_nonempty: "toString i \<noteq> []"
  by (simp add: toString_def show_nat_nonempty)

subsection \<open>Storage\<close>

lemma getItem_setItem: "getItem (setItem k v w) k' = (if k' = k then Some v else getItem w k')"
  by (simp add: getItem_def setItem_def)

lemma getItem_removeItem: "getItem (removeItem k w) k' = (if k' = k then None else getItem w k')"
  by (simp add: getItem_def removeItem_def)

lemma clock_setItem: "clock (setItem k v w) = clock w"
  by (simp add: setItem_def)

lemma clock_removeItem: "clock (removeItem k w) = clock w"
  by (simp add: removeItem_def)

lemma getItem_advance: "getItem (advance ms w) k = getItem w k"
  by (simp add: getItem_def advance_def)

lemma getItem_storeTokens:
  "getItem (storeTokens a r e w) k =
     (if k = ''tokenExpiry'' then Some (expiry_string w e)
      else if k = ''refreshToken'' then Some (js_string r)
      else if k = ''accessToken'' then Some (js_string a)
      else getItem w k)"
  by (simp add: storeTokens_def getItem_setItem)

lemma getItem_clearTokens:
  "getItem (clearTokens w) k =
     (if k = ''tokenExpiry'' \<or> k = ''refreshToken'' \<or> k = ''accessToken'' then None else getItem w k)"
  by (simp add: clearTokens_def getItem_removeItem)

lemma clock_storeTokens: "clock (storeTokens a r e w) = clock w"
  by (simp add: storeTokens_def clock_setItem)

lemma isTokenExpired_stored:
  "getItem w ''tokenExpiry'' = Some (toString e) \<Longrightarrow> isTokenExpired w = (clock w \<ge> e)"
  by (simp add: isTokenExpired_def truthy_def toString_nonempty parseInt_toString)

subsection \<open>Expiry after storing credentials\<close>

text \<open>
  Claim C9. Let \<^verbatim>\<open>storeTokens(accessToken, refreshToken, E)\<close> run with a whole number \<open>E\<close>
  of seconds, whatever was stored before, and let the clock readings, \<open>E * 1000\<close> and the
  stored expiry be safe integers (the range in which the code's arithmetic and printing
  are those of the model). Then right after the call, if \<open>E > 0\<close>, \<^verbatim>\<open>isTokenExpired()\<close>
  is false; once the clock has advanced by \<open>d\<close> milliseconds it is true exactly when those
  \<open>d\<close> milliseconds cover the \<open>E\<close> seconds, that is when the clock has reached the store
  time plus \<open>E\<close> seconds; and with no expiry stored (absent or empty) it is true.
\<close>

theorem isTokenExpired_after_storeTokens:
  assumes "safe_integer (clock w)" and "safe_integer (E * 1000)"
    and "safe_integer (clock w + E * 1000)" and "safe_integer (clock w + int d)"
  shows "(0 < E \<longrightarrow> \<not> isTokenExpired (storeTokens (Some a) (Some r) (Some E) w))
   \<and> isTokenExpired (advance d (storeTokens (Some a) (Some r) (Some E) w))
       = (E * 1000 \<le> int d)
   \<and> (\<not> truthy (getItem w ''tokenExpiry'') \<longrightarrow> isTokenExpired w)"
proof -
  let ?w = "storeTokens (Some a) (Some r) (Some E) w"
  have st: "getItem ?w ''tokenExpiry'' = Some (toString (clock w + E * 1000))"
    by (simp add: getItem_storeTokens expiry_string_def number_toString_def)
  have now: "isTokenExpired ?w = (clock w + E * 1000 \<le> clock w)"
    using isTokenExpired_stored [OF st] by (simp add: clock_storeTokens)
  have st': "getItem (advance d ?w) ''tokenExpiry'' = Some (toString (clock w + E * 1000))"
    by (simp add: getItem_advance st)
  have later: "isTokenExpired (advance d ?w) = (clock w + E * 1000 \<le> clock w + int d)"
    using isTokenExpired_stored [OF st'] by (simp add: advance_def clock_storeTokens)
  have none: "\<not> truthy (getItem w ''tokenExpiry'') \<longrightarrow> isTokenExpired w"
    by (simp add: isTokenExpired_def)
  from now later none show ?thesis by simp
qed

text \<open>
  Claim C9 on the example session: sixty seconds of validity, read at once, one millisecond
  before and exactly at the expiry; and a session with no expiry stored.
\<close>

theorem isTokenExpired_after_storeTokens_witness:
  "safe_integer (clock session) \<and> safe_integer (60 * 1000)
   \<and> safe_integer (clock session + 60 * 1000) \<and> safe_integer (clock session + int 60000)
   \<and> \<not> isTokenExpired (storeTokens (Some ''access-2'') (Some ''refresh-2'') (Some 60) session)
   \<and> \<not> isTokenExpired (advance 59999 (storeTokens (Some ''access-2'') (Some ''refresh-2'') (Some 60) session))
   \<and> isTokenExpired (advance 60000 (storeTokens (Some ''access-2'') (Some ''refresh-2'') (Some 60) session))
   \<and> isTokenExpired (removeItem ''tokenExpiry'' session)"
proof -
  have ck: "clock session = 1000000" "clock (removeItem ''tokenExpiry'' session) = 1000000"
    by (simp_all add: session_def removeItem_def)
  have s: "safe_integer (clock session)" "safe_integer (60 * 1000)"
    "safe_integer (clock session + 60 * 1000)" "safe_integer (clock session + int d)"
    if "d \<le> 60000" for d
    using that by (simp_all add: safe_integer_def ck)
  have s': "safe_integer (clock (removeItem ''tokenExpiry'' session))"
    "safe_integer (clock (removeItem ''tokenExpiry'' session) + 60 * 1000)"
    "safe_integer (clock (removeItem ''tokenExpiry'' session) + int 0)"
    by (simp_all add: safe_integer_def ck)
  have le: "(0::nat) \<le> 60000" "(59999::nat) \<le> 60000" "(60000::nat) \<le> 60000" by simp_all
  note T0 = isTokenExpired_after_storeTokens
    [where w = session and E = 60 and d = 0 and a = "''access-2''" and r = "''refresh-2''",
      OF s(1) [OF le(1)] s(2) [OF le(1)] s(3) [OF le(1)] s(4) [OF le(1)]]
  note T1 = isTokenExpired_after_storeTokens
    [where w = session and E = 60 and d = 59999 and a = "''access-2''" and r = "''refresh-2''",
      OF s(1) [OF le(2)] s(2) [OF le(2)] s(3) [OF le(2)] s(4) [OF le(2)]]
  note T2 = isTokenExpired_after_storeTokens
    [where w = session and E = 60 and d = 60000 and a = "''access-2''" and r = "''refresh-2''",
      OF s(1) [OF le(3)] s(2) [OF le(3)] s(3) [OF le(3)] s(4) [OF le(3)]]
  note U = isTokenExpired_after_storeTokens
    [where w = "removeItem ''tokenExpiry'' session" and E = 60 and d = 0
       and a = "''access-2''" and r = "''refresh-2''",
      OF s'(1) s(2) [OF le(1)] s'(2) s'(3)]
  have f: "\<not> truthy (getItem (removeItem ''tokenExpiry'' session) ''tokenExpiry'')"
    by (simp add: getItem_removeItem truthy_def)
  have 1: "\<not> isTokenExpired (storeTokens (Some ''access-2'') (Some ''refresh-2'') (Some 60) session)"
    using conjunct1 [OF T0] by simp
  have 2: "\<not> isTokenExpired (advance 59999 (storeTokens (Some ''access-2'') (Some ''refresh-2'') (Some 60) session))"
    using conjunct1 [OF conjunct2 [OF T1]] by simp
  have 3: "isTokenExpired (advance 60000 (storeTokens (Some ''access-2'') (Some ''refresh-2'') (Some 60) session))"
    using conjunct1 [OF conjunct2 [OF T2]] by simp
  have 4: "isTokenExpired (removeItem ''tokenExpiry'' session)"
    using mp [OF conjunct2 [OF conjunct2 [OF U]] f] .
  from s(1) [OF le(3)] s(2) [OF le(3)] s(3) [OF le(3)] s(4) [OF le(3)] 1 2 3 4
  show ?thesis by (intro conjI)
qed

subsection \<open>Requests that the response interceptor lets through\<close>

lemma includes_refresh_url: "str_includes ''/auth/tokens/refresh'' ''/auth/''"
  by simp

lemma includes_login_url: "str_includes ''/auth/login'' ''/auth/''"
  by simp

lemma onRejected_no_refresh:
  "retry c \<or> str_includes (url c) ''/auth/'' \<Longrightarrow> onRejected err c w = (w, Reject err)"
  by (auto simp: onRejected_def Let_def)

lemma receive_no_refresh:
  assumes "retry c \<or> str_includes (url c) ''/auth/''"
  shows "receive net i c w =
           (w, case net i c of Ok d \<Rightarrow> Resolved d | HttpError s \<Rightarrow> Rejected (HttpError s)
                 | NetError code \<Rightarrow> Rejected (NetError code))"
  by (subst receive.simps) (simp add: Let_def onRejected_no_refresh [OF assms] split: reply.splits)

lemma httpClient_no_refresh:
  assumes "retry config \<or> str_includes (url config) ''/auth/''"
  shows "httpClient net config w =
           (w\<lparr>netlog := netlog w @ [onRequest w config]\<rparr>,
            settle (net (length (netlog w)) (onRequest w config)))"
proof -
  have "retry (onRequest w config) \<or> str_includes (url (onRequest w config)) ''/auth/''"
    using assms by (simp add: onRequest_same)
  then show ?thesis
    by (subst httpClient.simps) (simp add: send_def Let_def receive_no_refresh settle_def split: reply.splits)
qed


lemma credentials_storeTokens: "credentials (storeTokens a r e w) = issued a r e w"
  by (simp add: credentials_def issued_def getItem_storeTokens)

lemma credentials_logout: "credentials (logout w) = (None, None, None)"
  by (simp add: credentials_def logout_def getItem_removeItem)

lemma credentials_clearTokens: "credentials (clearTokens w) = (None, None, None)"
  by (simp add: credentials_def clearTokens_def getItem_removeItem)

lemma credentials_store_logout: "credentials (store_logout w) = (None, None, None)"
  by (simp add: credentials_def store_logout_def getItem_def removeItem_def)

lemma credentials_refresh_failed: "credentials (refresh_failed w) = (None, None, None)"
  by (simp add: credentials_def refresh_failed_def getItem_def removeItem_def)

lemma credentials_netlog [simp]: "credentials (w\<lparr>netlog := l\<rparr>) = credentials w"
  by (simp add: credentials_def getItem_def)

lemma credentials_isRefreshing [simp]: "credentials (w\<lparr>isRefreshingRef := b\<rparr>) = credentials w"
  by (simp add: credentials_def getItem_def)

lemma credentials_toasts [simp]: "credentials (w\<lparr>toasts := b\<rparr>) = credentials w"
  by (simp add: credentials_def getItem_def)

lemma expiry_string_netlog [simp]: "expiry_string (w\<lparr>netlog := l\<rparr>) e = expiry_string w e"
  by (simp add: expiry_string_def)

lemma issued_netlog [simp]: "issued a r e (w\<lparr>netlog := l\<rparr>) = issued a r e w"
  by (simp add: issued_def)

lemma credentials_onRefreshSettled:
  "credentials (fst (onRefreshSettled r err c w)) =
     (case r of
        Resolved d \<Rightarrow> if truthy (data_accessToken d)
                      then issued (data_accessToken d) (data_refreshToken d) (data_expiresIn d) w
                      else credentials w
      | Rejected e \<Rightarrow> (None, None, None))"
  by (simp add: onRefreshSettled_def Let_def credentials_refresh_failed split: result.splits)
     (simp add: credentials_def issued_def getItem_setItem expiry_string_def clock_setItem)

lemma credentials_resume:
  "credentials (fst (performTokenRefresh_resume r w)) =
     (case r of
        Resolved d \<Rightarrow> issued (data_accessToken d) (data_refreshToken d) (data_expiresIn d) w
      | Rejected e \<Rightarrow> if response_status e = Some 401 \<or> response_status e = Some 403
                      then (None, None, None) else credentials w)"
  by (simp add: performTokenRefresh_resume_def performTokenRefresh_catch_def Let_def
        credentials_storeTokens credentials_store_logout split: result.splits)

lemma credentials_login:
  "credentials (fst (login net p w)) =
     (case net (length (netlog w)) (onRequest w (loginRequest p)) of
        Ok d \<Rightarrow> (case data_tokens d of
                   Some (a, r, e) \<Rightarrow> issued (Some a) (Some r) (Some e) w
                 | None \<Rightarrow> credentials w)
      | _ \<Rightarrow> credentials w)"
proof -
  have h: "httpClient net (loginRequest p) w =
      (w\<lparr>netlog := netlog w @ [onRequest w (loginRequest p)]\<rparr>,
       settle (net (length (netlog w)) (onRequest w (loginRequest p))))"
    by (rule httpClient_no_refresh) (simp add: loginRequest_def)
  show ?thesis
    unfolding login_def h
    by (simp add: settle_def Let_def split: reply.splits option.splits)
       (simp add: credentials_def issued_def getItem_def setItem_def expiry_string_def
          number_toString_def js_string_def)
qed

lemma credentials_refreshToken:
  "credentials (fst (refreshToken net w)) =
     (if \<not> truthy (getItem w ''refreshToken'') then (None, None, None)
      else (case net (length (netlog w)) (onRequest w (refreshRequest (the (getItem w ''refreshToken'')))) of
              Ok d \<Rightarrow> if truthy (data_accessToken d)
                      then issued (data_accessToken d) (data_refreshToken d) (data_expiresIn d) w
                      else credentials w
            | _ \<Rightarrow> (None, None, None)))"
proof -
  have h: "httpClient net (refreshRequest rt) w =
      (w\<lparr>netlog := netlog w @ [onRequest w (refreshRequest rt)]\<rparr>,
       settle (net (length (netlog w)) (onRequest w (refreshRequest rt))))" for rt
    by (rule httpClient_no_refresh) (simp add: refreshRequest_def)
  show ?thesis
    unfolding refreshToken_def h
    by (simp add: settle_def Let_def credentials_logout split: reply.splits)
       (simp add: credentials_def issued_def getItem_def setItem_def expiry_string_def)
qed

lemma credentials_enhancedLogout:
  "credentials (enhancedLogout net revokeAll w) = (None, None, None)"
proof -
  have "httpClient net (revokeRequest revokeAll) w =
      (w\<lparr>netlog := netlog w @ [onRequest w (revokeRequest revokeAll)]\<rparr>,
       settle (net (length (netlog w)) (onRequest w (revokeRequest revokeAll))))"
    by (rule httpClient_no_refresh) (simp add: revokeRequest_def)
  then show ?thesis
    by (simp add: enhancedLogout_def credentials_logout)
qed

lemma store_refreshToken_present:
  assumes "truthy (getItem w ''refreshToken'')"
  shows "credentials (fst (store_refreshToken w)) =
           (Some (''mock-jwt-token-'' @ toString (clock w)), getItem w ''refreshToken'',
            Some (toString (clock w + 3600 * 1000)))"
    and "snd (store_refreshToken w) = Returns ()"
    and "netlog (fst (store_refreshToken w)) = netlog w"
    and "token (store (fst (store_refreshToken w))) = Some (''mock-jwt-token-'' @ toString (clock w))"
  using assms
  by (simp_all add: store_refreshToken_def Let_def credentials_def getItem_def setItem_def)

lemma store_refreshToken_absent:
  assumes "\<not> truthy (getItem w ''refreshToken'')"
  shows "store_refreshToken w = (store_logout w, Throws ''No refresh token available'')"
  using assms by (simp add: store_refreshToken_def Let_def)

subsection \<open>Decimal strings of the examples\<close>

lemma digit_chars:
  "digit_char 0 = CHR ''0''" "digit_char (Suc 0) = CHR ''1''" "digit_char 2 = CHR ''2''"
  "digit_char 3 = CHR ''3''" "digit_char 4 = CHR ''4''" "digit_char 5 = CHR ''5''"
  "digit_char 6 = CHR ''6''" "digit_char 7 = CHR ''7''" "digit_char 8 = CHR ''8''"
  "digit_char 9 = CHR ''9''"
  by code_simp+

lemma toString_examples:
  "toString 1000000 = ''1000000''" "toString 4600000 = ''4600000''"
  "toString 1060000 = ''1060000''" "toString 1300000 = ''1300000''"
  by (simp_all add: toString_def show_nat.simps digit_chars)

lemma getTimeUntilExpiry_stored:
  "getItem w ''tokenExpiry'' = Some (toString e) \<Longrightarrow> getTimeUntilExpiry w = Some (max 0 (e - clock w))"
  by (simp add: getTimeUntilExpiry_def truthy_def toString_nonempty parseInt_toString)

subsection \<open>The store's refresh action\<close>

text \<open>
  Claim C10. The store's \<^verbatim>\<open>refreshToken\<close> action hands nothing to the network. With a
  refresh token in storage it stores the access token \<^verbatim>\<open>mock-jwt-token-\<close> followed by the
  clock reading, sets the expiry to the clock plus 3600 seconds (so that the time until
  expiry is exactly 3600000 ms), leaves the stored refresh token as it was and returns.
  With no refresh token (absent or empty) it logs out and throws: the three stored keys
  are gone, the store holds no user and no token and is not authenticated (nothing else
  changes), and the error \<^verbatim>\<open>No refresh token available\<close> is thrown.
\<close>

theorem store_refreshToken_is_local_mock:
  "netlog (fst (store_refreshToken w)) = netlog w
   \<and> (truthy (getItem w ''refreshToken'') \<longrightarrow>
        credentials (fst (store_refreshToken w)) =
          (Some (''mock-jwt-token-'' @ toString (clock w)), getItem w ''refreshToken'',
           Some (toString (clock w + 3600 * 1000)))
        \<and> clock (fst (store_refreshToken w)) = clock w
        \<and> getTimeUntilExpiry (fst (store_refreshToken w)) = Some (3600 * 1000)
        \<and> snd (store_refreshToken w) = Returns ())
   \<and> (\<not> truthy (getItem w ''refreshToken'') \<longrightarrow>
        snd (store_refreshToken w) = Throws ''No refresh token available''
        \<and> credentials (fst (store_refreshToken w)) = (None, None, None)
        \<and> store (fst (store_refreshToken w)) =
            \<lparr>user = None, token = None, isAuthenticated = False, loadingState = IDLE,
             error = None\<rparr>
        \<and> toasts (fst (store_refreshToken w)) = toasts w
        \<and> events (fst (store_refreshToken w)) = events w
        \<and> store_refreshToken w = (store_logout w, Throws ''No refresh token available''))"
proof (cases "truthy (getItem w ''refreshToken'')")
  case True
  let ?w = "fst (store_refreshToken w)"
  have cr: "credentials ?w =
      (Some (''mock-jwt-token-'' @ toString (clock w)), getItem w ''refreshToken'',
       Some (toString (clock w + 3600 * 1000)))"
    by (rule store_refreshToken_present(1) [OF True])
  have ck: "clock ?w = clock w"
    using True by (simp add: store_refreshToken_def Let_def setItem_def)
  have "getItem ?w ''tokenExpiry'' = Some (toString (clock w + 3600 * 1000))"
    using cr by (simp add: credentials_def)
  from getTimeUntilExpiry_stored [OF this]
  have "getTimeUntilExpiry ?w = Some (3600 * 1000)" by (simp add: ck)
  with True cr ck store_refreshToken_present(2,3) [OF True] show ?thesis by simp
next
  case False
  have eq: "store_refreshToken w = (store_logout w, Throws ''No refresh token available'')"
    by (rule store_refreshToken_absent [OF False])
  have nl: "netlog (store_logout w) = netlog w" "toasts (store_logout w) = toasts w"
    "events (store_logout w) = events w"
    "store (store_logout w) =
       \<lparr>user = None, token = None, isAuthenticated = False, loadingState = IDLE, error = None\<rparr>"
    by (simp_all add: store_logout_def removeItem_def)
  show ?thesis using False by (simp add: eq nl credentials_store_logout)
qed

text \<open>
  Claim C10 on the example session, and on the same session without its refresh token.
\<close>

theorem store_refreshToken_is_local_mock_witness:
  "credentials (fst (store_refreshToken session)) =
     (Some ''mock-jwt-token-1000000'', Some ''refresh-1'', Some ''4600000'')
   \<and> netlog (fst (store_refreshToken session)) = []
   \<and> snd (store_refreshToken session) = Returns ()
   \<and> snd (store_refreshToken (removeItem ''refreshToken'' session))
       = Throws ''No refresh token available''
   \<and> credentials (fst (store_refreshToken (removeItem ''refreshToken'' session)))
       = (None, None, None)
   \<and> isAuthenticated (store (fst (store_refreshToken (removeItem ''refreshToken'' session))))
       = False
   \<and> token (store (fst (store_refreshToken (removeItem ''refreshToken'' session)))) = None"
proof -
  have t: "truthy (getItem session ''refreshToken'')"
    by (simp add: session_def getItem_def truthy_def)
  have f: "\<not> truthy (getItem (removeItem ''refreshToken'' session) ''refreshToken'')"
    by (simp add: getItem_removeItem truthy_def)
  have g: "getItem session ''refreshToken'' = Some ''refresh-1''" "clock session = 1000000"
    "netlog session = []"
    by (simp_all add: session_def getItem_def)
  note present = store_refreshToken_is_local_mock [of session]
  note absent = store_refreshToken_is_local_mock [of "removeItem ''refreshToken'' session"]
  have n: "netlog (fst (store_refreshToken session)) = []"
    using conjunct1 [OF present] by (simp only: g)
  note p = mp [OF conjunct1 [OF conjunct2 [OF present]] t]
  have c: "credentials (fst (store_refreshToken session)) =
     (Some ''mock-jwt-token-1000000'', Some ''refresh-1'', Some ''4600000'')"
    using conjunct1 [OF p] by (simp add: g toString_examples)
  have r: "snd (store_refreshToken session) = Returns ()"
    using p by (elim conjE)
  note a = mp [OF conjunct2 [OF conjunct2 [OF absent]] f]
  have a1: "snd (store_refreshToken (removeItem ''refreshToken'' session))
       = Throws ''No refresh token available''"
    using a by (elim conjE)
  have a2: "credentials (fst (store_refreshToken (removeItem ''refreshToken'' session)))
       = (None, None, None)"
    using a by (elim conjE)
  have a3: "store (fst (store_refreshToken (removeItem ''refreshToken'' session))) =
            \<lparr>user = None, token = None, isAuthenticated = False, loadingState = IDLE,
             error = None\<rparr>"
    using a by (elim conjE)
  have a4: "isAuthenticated (store (fst (store_refreshToken (removeItem ''refreshToken'' session))))
       = False"
    by (simp add: a3)
  have a5: "token (store (fst (store_refreshToken (removeItem ''refreshToken'' session)))) = None"
    by (simp add: a3)
  from n c r a1 a2 a4 a5 show ?thesis by (intro conjI)
qed


subsection \<open>Writers of the credential triple\<close>

text \<open>
  Claim C7, as amended. Every writer of the stored credentials but one leaves the triple
  either as it was, or cleared, or wholly replaced by the triple of one issuance:
  \<^verbatim>\<open>storeTokens\<close>, \<^verbatim>\<open>login\<close> and \<^verbatim>\<open>refreshToken\<close> of the authentication service, the
  response interceptor after its refresh call, the hook's refresh after its call, and the
  five clearing operations. The exception is the store's mock \<^verbatim>\<open>refreshToken\<close> action:
  with a refresh token present it replaces the access token and the expiry and keeps the
  refresh token that was stored.
\<close>

theorem credential_writers_all_or_nothing:
  "credentials (storeTokens a r e w) = issued a r e w
   \<and> credentials (fst (login net p w)) =
       (case net (length (netlog w)) (onRequest w (loginRequest p)) of
          Ok d \<Rightarrow> (case data_tokens d of
                     Some (a', r', e') \<Rightarrow> issued (Some a') (Some r') (Some e') w
                   | None \<Rightarrow> credentials w)
        | _ \<Rightarrow> credentials w)
   \<and> credentials (fst (refreshToken net w)) =
       (if \<not> truthy (getItem w ''refreshToken'') then (None, None, None)
        else (case net (length (netlog w))
                     (onRequest w (refreshRequest (the (getItem w ''refreshToken'')))) of
                Ok d \<Rightarrow> if truthy (data_accessToken d)
                        then issued (data_accessToken d) (data_refreshToken d) (data_expiresIn d) w
                        else credentials w
              | _ \<Rightarrow> (None, None, None)))
   \<and> credentials (fst (onRefreshSettled rr err c w)) =
       (case rr of
          Resolved d \<Rightarrow> if truthy (data_accessToken d)
                        then issued (data_accessToken d) (data_refreshToken d) (data_expiresIn d) w
                        else credentials w
        | Rejected x \<Rightarrow> (None, None, None))
   \<and> credentials (fst (performTokenRefresh_resume rr w)) =
       (case rr of
          Resolved d \<Rightarrow> issued (data_accessToken d) (data_refreshToken d) (data_expiresIn d) w
        | Rejected x \<Rightarrow> if response_status x = Some 401 \<or> response_status x = Some 403
                        then (None, None, None) else credentials w)
   \<and> credentials (clearTokens w) = (None, None, None)
   \<and> credentials (logout w) = (None, None, None)
   \<and> credentials (store_logout w) = (None, None, None)
   \<and> credentials (refresh_failed w) = (None, None, None)
   \<and> credentials (enhancedLogout net revokeAll w) = (None, None, None)
   \<and> credentials (fst (store_refreshToken w)) =
       (if truthy (getItem w ''refreshToken'')
        then (Some (''mock-jwt-token-'' @ toString (clock w)), getItem w ''refreshToken'',
              Some (toString (clock w + 3600 * 1000)))
        else (None, None, None))"
proof -
  have "credentials (fst (store_refreshToken w)) =
       (if truthy (getItem w ''refreshToken'')
        then (Some (''mock-jwt-token-'' @ toString (clock w)), getItem w ''refreshToken'',
              Some (toString (clock w + 3600 * 1000)))
        else (None, None, None))"
    by (simp add: store_refreshToken_present(1) store_refreshToken_absent credentials_store_logout)
  then show ?thesis
    by (simp only: credentials_storeTokens credentials_login credentials_refreshToken
          credentials_onRefreshSettled credentials_resume credentials_clearTokens
          credentials_logout credentials_store_logout credentials_refresh_failed
          credentials_enhancedLogout simp_thms)
qed

text \<open>Claim C7 as amended, on the example session.\<close>

theorem credential_writers_all_or_nothing_witness:
  "credentials (storeTokens (Some ''access-2'') (Some ''refresh-2'') (Some 60) session)
     = (Some ''access-2'', Some ''refresh-2'', Some ''1060000'')
   \<and> credentials (fst (login (\<lambda>i c. Ok (LoginData (Some (''access-2'', ''refresh-2'', 60))))
                            ''admin:secret'' session))
     = (Some ''access-2'', Some ''refresh-2'', Some ''1060000'')
   \<and> credentials (fst (refreshToken (\<lambda>i c. NetError ''ERR_NETWORK'') session)) = (None, None, None)
   \<and> credentials (fst (store_refreshToken session))
     = (Some ''mock-jwt-token-1000000'', Some ''refresh-1'', Some ''4600000'')"
proof -
  have g: "getItem session ''refreshToken'' = Some ''refresh-1''" "clock session = 1000000"
    by (simp_all add: session_def getItem_def)
  note T = credential_writers_all_or_nothing
  have 1: "credentials (storeTokens (Some ''access-2'') (Some ''refresh-2'') (Some 60) session)
     = (Some ''access-2'', Some ''refresh-2'', Some ''1060000'')"
    using T [of "Some ''access-2''" "Some ''refresh-2''" "Some 60" session]
    by (simp add: issued_def js_string_def expiry_string_def number_toString_def g toString_examples)
  have 2: "credentials (fst (login (\<lambda>i c. Ok (LoginData (Some (''access-2'', ''refresh-2'', 60))))
                            ''admin:secret'' session))
     = (Some ''access-2'', Some ''refresh-2'', Some ''1060000'')"
    using T [of _ _ _ session "\<lambda>i c. Ok (LoginData (Some (''access-2'', ''refresh-2'', 60)))" "''admin:secret''"]
    by (simp add: issued_def js_string_def expiry_string_def number_toString_def g toString_examples)
  have 3: "credentials (fst (refreshToken (\<lambda>i c. NetError ''ERR_NETWORK'') session)) = (None, None, None)"
    using T [of _ _ _ session "\<lambda>i c. NetError ''ERR_NETWORK''"]
    by (simp add: g truthy_def)
  have 4: "credentials (fst (store_refreshToken session))
     = (Some ''mock-jwt-token-1000000'', Some ''refresh-1'', Some ''4600000'')"
    using T [of _ _ _ session]
    by (simp add: g truthy_def toString_examples)
  from 1 2 3 4 show ?thesis by (intro conjI)
qed

text \<open>
  Claim C7 as stated fails on the store's action: after it the access token and the expiry
  are new while the refresh token is the one stored before.
\<close>

theorem store_refreshToken_pairs_new_access_with_old_refresh:
  "credentials session = (Some ''access-1'', Some ''refresh-1'', Some ''1300000'')
   \<and> credentials (fst (store_refreshToken session))
       = (Some ''mock-jwt-token-1000000'', Some ''refresh-1'', Some ''4600000'')"
proof -
  have t: "truthy (getItem session ''refreshToken'')"
    by (simp add: session_def getItem_def truthy_def)
  have g: "getItem session ''refreshToken'' = Some ''refresh-1''" "clock session = 1000000"
    by (simp_all add: session_def getItem_def)
  have "credentials session = (Some ''access-1'', Some ''refresh-1'', Some ''1300000'')"
    by (simp add: credentials_def session_def getItem_def)
  moreover have "credentials (fst (store_refreshToken session))
       = (Some ''mock-jwt-token-1000000'', Some ''refresh-1'', Some ''4600000'')"
    using store_refreshToken_present(1) [OF t] by (simp add: g toString_examples)
  ultimately show ?thesis by (intro conjI)
qed

subsection \<open>The hook's refresh, in phases and as a whole\<close>

lemma getItem_fields [simp]:
  "getItem (w\<lparr>isRefreshingRef := b\<rparr>) k = getItem w k"
  "getItem (w\<lparr>netlog := l\<rparr>) k = getItem w k"
  "getItem (w\<lparr>toasts := t\<rparr>) k = getItem w k"
  "getItem (w\<lparr>events := ev\<rparr>) k = getItem w k"
  "getItem (w\<lparr>refreshTimeoutRef := tm\<rparr>) k = getItem w k"
  "getItem (w\<lparr>store := s\<rparr>) k = getItem w k"
  by (simp_all add: getItem_def)

lemma onRequest_fields [simp]:
  "onRequest (w\<lparr>isRefreshingRef := b\<rparr>) c = onRequest w c"
  "onRequest (w\<lparr>refreshTimeoutRef := tm\<rparr>) c = onRequest w c"
  by (simp_all add: onRequest_def)

lemma performTokenRefresh_phases:
  "performTokenRefresh net w =
     (case performTokenRefresh_begin w of
        (w1, Done b) \<Rightarrow> (w1, b)
      | (w1, Awaiting c) \<Rightarrow>
          (case receive net (length (netlog w)) c w1 of
             (w2, r) \<Rightarrow> performTokenRefresh_resume r w2))"
  by (simp add: performTokenRefresh_def performTokenRefresh_begin_def refreshAccessToken_def
        httpClient.simps send_def Let_def performTokenRefresh_catch_def split: prod.splits)

lemma performTokenRefresh_busy:
  "isRefreshingRef w \<Longrightarrow> performTokenRefresh_begin w = (w, Done False)"
  "isRefreshingRef w \<Longrightarrow> performTokenRefresh net w = (w, False)"
  by (simp_all add: performTokenRefresh_begin_def performTokenRefresh_def)

lemma flag_reset: "\<not> isRefreshingRef w \<Longrightarrow> w\<lparr>isRefreshingRef := False\<rparr> = w"
  by simp

lemma performTokenRefresh_no_token:
  assumes "\<not> truthy (getItem w ''refreshToken'')"
  shows "performTokenRefresh_begin w = (w, Done False)"
    and "performTokenRefresh net w = (w, False)"
  using assms
  by (auto simp: performTokenRefresh_begin_def performTokenRefresh_def Let_def
        performTokenRefresh_catch_def)

lemma performTokenRefresh_begin_sends:
  assumes "\<not> isRefreshingRef w" "truthy (getItem w ''refreshToken'')"
  shows "performTokenRefresh_begin w =
           (w\<lparr>isRefreshingRef := True,
              netlog := netlog w @ [onRequest w (refreshRequest (the (getItem w ''refreshToken'')))]\<rparr>,
            Awaiting (onRequest w (refreshRequest (the (getItem w ''refreshToken'')))))"
  using assms by (simp add: performTokenRefresh_begin_def Let_def send_def)

lemma performTokenRefresh_run:
  assumes "\<not> isRefreshingRef w" "truthy (getItem w ''refreshToken'')"
  shows "performTokenRefresh net w =
           performTokenRefresh_resume
             (settle (net (length (netlog w)) (onRequest w (refreshRequest (the (getItem w ''refreshToken''))))))
             (w\<lparr>isRefreshingRef := True,
                netlog := netlog w @ [onRequest w (refreshRequest (the (getItem w ''refreshToken'')))]\<rparr>)"
proof -
  let ?c = "onRequest w (refreshRequest (the (getItem w ''refreshToken'')))"
  have "retry ?c \<or> str_includes (url ?c) ''/auth/''"
    by (simp add: onRequest_same refreshRequest_def)
  from receive_no_refresh [OF this]
  have r: "receive net i ?c w' = (w', settle (net i ?c))" for i w'
    by (simp add: settle_def split: reply.splits)
  show ?thesis
    by (simp add: performTokenRefresh_phases performTokenRefresh_begin_sends [OF assms] r)
qed


subsection \<open>The response interceptor on an unauthorized reply\<close>

lemma onRejected_unauthorized:
  assumes "response_status err = Some 401 \<or> response_status err = Some 403"
    and "\<not> retry c" and "\<not> str_includes (url c) ''/auth/''"
  shows "onRejected err c w =
           (if truthy (getItem w ''refreshToken'')
            then (w, RefreshFirst (c\<lparr>retry := True\<rparr>) (refreshRequest (the (getItem w ''refreshToken''))))
            else (refresh_failed w, Reject err))"
  using assms by (auto simp: onRejected_def Let_def)

lemma httpClient_refreshRequest:
  "httpClient net (refreshRequest rt) w =
     (w\<lparr>netlog := netlog w @ [onRequest w (refreshRequest rt)]\<rparr>,
      settle (net (length (netlog w)) (onRequest w (refreshRequest rt))))"
  by (rule httpClient_no_refresh) (simp add: refreshRequest_def)

lemma receive_unauthorized:
  assumes st: "response_status (net i c) = Some 401 \<or> response_status (net i c) = Some 403"
    and nr: "\<not> retry c" and na: "\<not> str_includes (url c) ''/auth/''"
  shows "receive net i c w =
     (if \<not> truthy (getItem w ''refreshToken'') then (refresh_failed w, Rejected (net i c))
      else
        (case onRefreshSettled
                (settle (net (length (netlog w)) (onRequest w (refreshRequest (the (getItem w ''refreshToken''))))))
                (net i c) (c\<lparr>retry := True\<rparr>)
                (w\<lparr>netlog := netlog w @ [onRequest w (refreshRequest (the (getItem w ''refreshToken'')))]\<rparr>) of
           (w4, GiveUp e) \<Rightarrow> (w4, Rejected e)
         | (w4, Retry replay) \<Rightarrow> httpClient net replay w4))"
proof -
  from st obtain s where e: "net i c = HttpError s" by (cases "net i c") auto
  show ?thesis
    by (subst receive.simps)
       (simp add: Let_def e onRejected_unauthorized [OF st [unfolded e] nr na] httpClient_refreshRequest)
qed


lemma onRefreshSettled_cases:
  "onRefreshSettled rr err c w =
     (case rr of
        Resolved d \<Rightarrow>
          if truthy (data_accessToken d)
          then (storeTokens (data_accessToken d) (data_refreshToken d) (data_expiresIn d) w,
                Retry (c\<lparr>authorization := Some (bearer (the (data_accessToken d)))\<rparr>))
          else (w, GiveUp err)
      | Rejected x \<Rightarrow> (refresh_failed w, GiveUp err))"
  by (simp add: onRefreshSettled_def Let_def storeTokens_def expiry_string_def clock_setItem
        split: result.splits)

lemma settle_cases:
  "settle (Ok d) = Resolved d" "settle (HttpError s) = Rejected (HttpError s)"
  "settle (NetError code) = Rejected (NetError code)"
  by (simp_all add: settle_def)

lemma onRequest_after_store:
  assumes "truthy a"
  shows "onRequest (storeTokens a r e w\<lparr>netlog := l\<rparr>) (c\<lparr>authorization := Some (bearer (the a))\<rparr>)
           = c\<lparr>authorization := Some (bearer (the a))\<rparr>"
proof -
  from assms obtain s where a: "a = Some s" "s \<noteq> []"
    by (cases a) (auto simp: truthy_def)
  show ?thesis
    by (simp add: onRequest_def Let_def getItem_storeTokens a js_string_def truthy_def)
qed

lemma storeTokens_netlog:
  "storeTokens a r e (w\<lparr>netlog := l\<rparr>) = (storeTokens a r e w)\<lparr>netlog := l\<rparr>"
  "netlog (storeTokens a r e w) = netlog w"
  by (simp_all add: storeTokens_def setItem_def expiry_string_def)

lemma refresh_failed_netlog:
  "netlog (refresh_failed w) = netlog w"
  by (simp add: refresh_failed_def removeItem_def)

lemma httpClient_unauthorized:
  assumes na: "\<not> str_includes (url config) ''/auth/''" and nr: "\<not> retry config"
    and st: "response_status (net (length (netlog w)) (onRequest w config)) = Some 401
             \<or> response_status (net (length (netlog w)) (onRequest w config)) = Some 403"
  shows "httpClient net config w =
     (let n = length (netlog w);
          c0 = onRequest w config;
          err = net n c0;
          rt = getItem w ''refreshToken'';
          rq = onRequest w (refreshRequest (the rt))
      in if \<not> truthy rt then (refresh_failed (w\<lparr>netlog := netlog w @ [c0]\<rparr>), Rejected err)
         else
           (case net (n + 1) rq of
              Ok d \<Rightarrow>
                if truthy (data_accessToken d) then
                  (let replay = c0\<lparr>retry := True,
                            authorization := Some (bearer (the (data_accessToken d)))\<rparr>
                   in ((storeTokens (data_accessToken d) (data_refreshToken d) (data_expiresIn d) w)
                         \<lparr>netlog := netlog w @ [c0, rq, replay]\<rparr>,
                       settle (net (n + 2) replay)))
                else (w\<lparr>netlog := netlog w @ [c0, rq]\<rparr>, Rejected err)
            | HttpError s \<Rightarrow> (refresh_failed (w\<lparr>netlog := netlog w @ [c0, rq]\<rparr>), Rejected err)
            | NetError code \<Rightarrow> (refresh_failed (w\<lparr>netlog := netlog w @ [c0, rq]\<rparr>), Rejected err)))"
proof -
  let ?n = "length (netlog w)"
  let ?c0 = "onRequest w config"
  let ?w0 = "w\<lparr>netlog := netlog w @ [?c0]\<rparr>"
  let ?rq = "onRequest w (refreshRequest (the (getItem w ''refreshToken'')))"
  have c0: "\<not> retry ?c0" "\<not> str_includes (url ?c0) ''/auth/''"
    using na nr by (simp_all add: onRequest_same)
  have h: "httpClient net config w = receive net ?n ?c0 ?w0"
    by (subst httpClient.simps) (simp add: send_def Let_def)
  have rq: "onRequest ?w0 (refreshRequest x) = onRequest w (refreshRequest x)" for x
    by (simp add: onRequest_def)
  note r = receive_unauthorized [of net ?n ?c0 ?w0, OF st c0]
  show ?thesis
  proof (cases "truthy (getItem w ''refreshToken'')")
    case False
    then show ?thesis by (simp add: h r Let_def)
  next
    case True
    show ?thesis
    proof (cases "net (Suc ?n) ?rq")
      case (Ok d)
      show ?thesis
      proof (cases "truthy (data_accessToken d)")
        case t: True
        let ?replay = "?c0\<lparr>retry := True, authorization := Some (bearer (the (data_accessToken d)))\<rparr>"
        let ?w3 = "(storeTokens (data_accessToken d) (data_refreshToken d) (data_expiresIn d) w)
                     \<lparr>netlog := netlog w @ [?c0, ?rq]\<rparr>"
        have rp: "httpClient net ?replay ?w3 =
            (?w3\<lparr>netlog := netlog ?w3 @ [onRequest ?w3 ?replay]\<rparr>,
             settle (net (length (netlog ?w3)) (onRequest ?w3 ?replay)))"
          by (rule httpClient_no_refresh) simp
        have orq: "onRequest ?w3 ?replay = ?replay"
          using onRequest_after_store [OF t, where w = w and c = "?c0\<lparr>retry := True\<rparr>"] by simp
        show ?thesis
          using True t
          by (simp add: h r rq Let_def Ok settle_cases onRefreshSettled_cases storeTokens_netlog rp orq)
      next
        case f: False
        show ?thesis
          using True f by (simp add: h r rq Let_def Ok settle_cases onRefreshSettled_cases)
      qed
    next
      case (HttpError s)
      show ?thesis
        using True by (simp add: h r rq Let_def HttpError settle_cases onRefreshSettled_cases)
    next
      case (NetError code)
      show ?thesis
        using True by (simp add: h r rq Let_def NetError settle_cases onRefreshSettled_cases)
    qed
  qed
qed


lemma url_not_refresh:
  "\<not> str_includes u ''/auth/'' \<Longrightarrow> u \<noteq> ''/auth/tokens/refresh''"
  by auto

lemma unauthorized_request_refresh_and_replay:
  assumes na: "\<not> str_includes (url config) ''/auth/''" and nr: "\<not> retry config"
    and first: "net (length (netlog w)) (onRequest w config) = HttpError 401"
  shows
    "(let n = length (netlog w);
          c0 = onRequest w config;
          rt = getItem w ''refreshToken'';
          rq = onRequest w (refreshRequest (the rt));
          w' = fst (httpClient net config w);
          outcome = snd (httpClient net config w);
          new = drop n (netlog w')
      in calls_to ''/auth/tokens/refresh'' new = (if truthy rt then 1 else 0)
         \<and> (\<forall>d. truthy rt \<and> net (n + 1) rq = Ok d \<and> truthy (data_accessToken d) \<longrightarrow>
               (let replay = c0\<lparr>retry := True,
                                authorization := Some (bearer (the (data_accessToken d)))\<rparr>
                in new = [c0, rq, replay]
                   \<and> calls_to (url config) new = 2
                   \<and> getItem w' ''accessToken'' = data_accessToken d
                   \<and> outcome = settle (net (n + 2) replay)
                   \<and> (net (n + 2) replay = HttpError 401 \<longrightarrow> outcome = Rejected (HttpError 401))))
         \<and> (\<not> (\<exists>d. truthy rt \<and> net (n + 1) rq = Ok d \<and> truthy (data_accessToken d)) \<longrightarrow>
               calls_to (url config) new = 1 \<and> outcome = Rejected (HttpError 401)))"
proof -
  let ?n = "length (netlog w)"
  let ?c0 = "onRequest w config"
  let ?rt = "getItem w ''refreshToken''"
  let ?rq = "onRequest w (refreshRequest (the ?rt))"
  have st: "response_status (net ?n ?c0) = Some 401 \<or> response_status (net ?n ?c0) = Some 403"
    by (simp add: first)
  note H = httpClient_unauthorized [where config = config and net = net and w = w, OF na nr st,
      unfolded Let_def first]
  have u0: "url ?c0 = url config" by (simp add: onRequest_same)
  have urq: "url ?rq = ''/auth/tokens/refresh''" by (simp add: onRequest_same refreshRequest_def)
  have ne: "url config \<noteq> ''/auth/tokens/refresh''" "''/auth/tokens/refresh'' \<noteq> url config"
    using url_not_refresh [OF na] by auto
  show ?thesis
  proof (cases "truthy ?rt")
    case False
    then show ?thesis
      by (simp add: H Let_def refresh_failed_netlog calls_to_def u0 ne)
  next
    case True
    show ?thesis
    proof (cases "net (Suc ?n) ?rq")
      case (Ok d)
      show ?thesis
      proof (cases "truthy (data_accessToken d)")
        case t: True
        then obtain s where a: "data_accessToken d = Some s" "s \<noteq> []"
          by (cases "data_accessToken d") (auto simp: truthy_def)
        show ?thesis
          using True t
          by (simp add: H Let_def Ok calls_to_def u0 urq ne getItem_storeTokens a js_string_def
                settle_cases)
      next
        case f: False
        show ?thesis
          using True f by (simp add: H Let_def Ok calls_to_def u0 urq ne)
      qed
    next
      case (HttpError s)
      show ?thesis
        using True by (simp add: H Let_def HttpError calls_to_def u0 urq ne refresh_failed_netlog)
    next
      case (NetError code)
      show ?thesis
        using True by (simp add: H Let_def NetError calls_to_def u0 urq ne refresh_failed_netlog)
    qed
  qed
qed

text \<open>
  Claim C3. A request to an endpoint outside \<^verbatim>\<open>/auth/\<close> whose \<^verbatim>\<open>_retry\<close> mark is unset
  and which is answered 401 makes the client attempt one refresh: the requests handed to
  the network from then on contain one refresh request when a refresh token is stored and
  none otherwise (the attempt then fails before the network). When the refresh call
  returns an access token, the log is exactly the original request, the refresh request
  and one replay of the original request carrying the \<^verbatim>\<open>_retry\<close> mark and the header
  \<^verbatim>\<open>Authorization\<close> set to \<^verbatim>\<open>Bearer\<close>, a space and the new access token; the new token is
  stored; and the outcome of the whole call is the outcome of
  the replay whatever it is, so a second 401 is passed on with no further request. In
  every other case nothing is replayed and the original 401 is passed on.
\<close>

theorem unauthorized_request_one_refresh_one_replay:
  assumes na: "\<not> str_includes (url config) ''/auth/''" and nr: "\<not> retry config"
    and first: "net (length (netlog w)) (onRequest w config) = HttpError 401"
  shows
    "(let n = length (netlog w);
          c0 = onRequest w config;
          rt = getItem w ''refreshToken'';
          rq = onRequest w (refreshRequest (the rt));
          w' = fst (httpClient net config w);
          outcome = snd (httpClient net config w);
          new = drop n (netlog w')
      in calls_to ''/auth/tokens/refresh'' new = (if truthy rt then 1 else 0)
         \<and> (\<forall>d. truthy rt \<and> net (n + 1) rq = Ok d \<and> truthy (data_accessToken d) \<longrightarrow>
               (let replay = c0\<lparr>retry := True,
                                authorization := Some (''Bearer '' @ the (data_accessToken d))\<rparr>
                in new = [c0, rq, replay]
                   \<and> calls_to (url config) new = 2
                   \<and> getItem w' ''accessToken'' = data_accessToken d
                   \<and> outcome = settle (net (n + 2) replay)
                   \<and> (net (n + 2) replay = HttpError 401 \<longrightarrow> outcome = Rejected (HttpError 401))))
         \<and> (\<not> (\<exists>d. truthy rt \<and> net (n + 1) rq = Ok d \<and> truthy (data_accessToken d)) \<longrightarrow>
               calls_to (url config) new = 1 \<and> outcome = Rejected (HttpError 401)))"
  by (rule unauthorized_request_refresh_and_replay
      [where config = config and net = net and w = w, OF na nr first, unfolded bearer_def])

lemma refreshRequest_fields:
  "url (refreshRequest rt) = ''/auth/tokens/refresh''" "retry (refreshRequest rt) = False"
  "body (refreshRequest rt) = Some rt" "authorization (refreshRequest rt) = None"
  by (simp_all add: refreshRequest_def)

subsection \<open>The example session\<close>

lemma session_facts:
  "getItem session ''accessToken'' = Some ''access-1''"
  "getItem session ''refreshToken'' = Some ''refresh-1''"
  "getItem session ''tokenExpiry'' = Some ''1300000''"
  "clock session = 1000000" "netlog session = []" "toasts session = []" "events session = []"
  "isRefreshingRef session = False" "refreshTimeoutRef session = None"
  "isAuthenticated (store session) = True"
  by (simp_all add: session_def getItem_def)

lemma session_requests:
  "onRequest session usersRequest = usersRequest\<lparr>authorization := Some ''Bearer access-1''\<rparr>"
  "onRequest session (refreshRequest ''refresh-1'')
     = (refreshRequest ''refresh-1'')\<lparr>authorization := Some ''Bearer access-1''\<rparr>"
  by (simp_all add: onRequest_def session_facts truthy_def bearer_def)

text \<open>
  Claim C3 on the example session: 401, a successful refresh, and 401 again on the replay.
\<close>

theorem unauthorized_request_one_refresh_one_replay_witness:
  "netlog (fst (httpClient unauthorized_network usersRequest session)) =
      [usersRequest\<lparr>authorization := Some ''Bearer access-1''\<rparr>,
       (refreshRequest ''refresh-1'')\<lparr>authorization := Some ''Bearer access-1''\<rparr>,
       usersRequest\<lparr>authorization := Some ''Bearer access-2'', retry := True\<rparr>]
   \<and> calls_to ''/auth/tokens/refresh'' (netlog (fst (httpClient unauthorized_network usersRequest session))) = 1
   \<and> calls_to ''/users'' (netlog (fst (httpClient unauthorized_network usersRequest session))) = 2
   \<and> getItem (fst (httpClient unauthorized_network usersRequest session)) ''accessToken'' = Some ''access-2''
   \<and> snd (httpClient unauthorized_network usersRequest session) = Rejected (HttpError 401)"
proof -
  have na: "\<not> str_includes (url usersRequest) ''/auth/''"
    by (simp add: usersRequest_def)
  have nr: "\<not> retry usersRequest"
    by (simp add: usersRequest_def)
  have first: "unauthorized_network (length (netlog session)) (onRequest session usersRequest) = HttpError 401"
    by (simp add: unauthorized_network_def session_facts)
  note T = unauthorized_request_one_refresh_one_replay
    [where config = usersRequest and net = unauthorized_network and w = session,
      OF na nr first, unfolded Let_def]
  have t: "truthy (getItem session ''refreshToken'')"
    by (simp add: session_facts truthy_def)
  have r: "unauthorized_network (length (netlog session) + 1)
             (onRequest session (refreshRequest (the (getItem session ''refreshToken''))))
           = Ok (TokenData ''access-2'' ''refresh-2'' 60)"
    by (simp add: unauthorized_network_def session_facts)
  have a: "truthy (data_accessToken (TokenData ''access-2'' ''refresh-2'' 60))"
    by (simp add: truthy_def)
  note Q = mp [OF spec [OF conjunct1 [OF conjunct2 [OF T]], of "TokenData ''access-2'' ''refresh-2'' 60"],
               OF conjI [OF t conjI [OF r a]]]
  have u: "url usersRequest = ''/users''" by (simp add: usersRequest_def)
  have third: "unauthorized_network (Suc (Suc 0)) c = HttpError 401" for c
    by (simp add: unauthorized_network_def)
  from conjunct1 [OF T] Q show ?thesis
    by (simp add: session_facts session_requests truthy_def u third settle_cases calls_to_def
          refreshRequest_fields)
qed

subsection \<open>Refreshing without a refresh token\<close>

lemma logout_fields:
  "netlog (logout w) = netlog w" "store (logout w) = store w" "toasts (logout w) = toasts w"
  "events (logout w) = events w" "clock (logout w) = clock w"
  by (simp_all add: logout_def removeItem_def)

lemma refreshToken_no_token:
  "\<not> truthy (getItem w ''refreshToken'') \<Longrightarrow> refreshToken net w = (logout w, None)"
  by (simp add: refreshToken_def Let_def)

text \<open>
  Claim C6, as amended. With no refresh token stored (absent or empty) a refresh fails at
  once and hands nothing to the network. The hook's \<^verbatim>\<open>performTokenRefresh\<close> returns
  \<^verbatim>\<open>false\<close> and leaves the whole state as it was: nothing is cleared, nobody is logged out,
  no toast is shown. \<^verbatim>\<open>refreshToken\<close> of the authentication service returns \<^verbatim>\<open>null\<close>
  and removes the three stored keys, without touching the store, the toasts or the events.
\<close>

theorem refresh_without_refresh_token:
  assumes "\<not> truthy (getItem w ''refreshToken'')"
  shows "performTokenRefresh_begin w = (w, Done False)
       \<and> performTokenRefresh net w = (w, False)
       \<and> refreshToken net w = (logout w, None)
       \<and> netlog (logout w) = netlog w
       \<and> credentials (logout w) = (None, None, None)
       \<and> store (logout w) = store w
       \<and> toasts (logout w) = toasts w
       \<and> events (logout w) = events w"
  using performTokenRefresh_no_token [OF assms] refreshToken_no_token [OF assms]
  by (simp add: logout_fields credentials_logout)

lemma removed_refresh_token:
  "\<not> truthy (getItem (removeItem ''refreshToken'' w) ''refreshToken'')"
  by (simp add: getItem_removeItem truthy_def)

text \<open>Claim C6 as amended, on the example session without its refresh token.\<close>

theorem refresh_without_refresh_token_witness:
  "performTokenRefresh (\<lambda>i c. HttpError 403) (removeItem ''refreshToken'' session)
     = (removeItem ''refreshToken'' session, False)
   \<and> refreshToken (\<lambda>i c. HttpError 403) (removeItem ''refreshToken'' session)
     = (logout (removeItem ''refreshToken'' session), None)
   \<and> netlog (logout (removeItem ''refreshToken'' session)) = []
   \<and> credentials (logout (removeItem ''refreshToken'' session)) = (None, None, None)"
  using refresh_without_refresh_token [OF removed_refresh_token, of session "\<lambda>i c. HttpError 403"]
  by (simp add: removeItem_def session_facts)

text \<open>
  Claim C6 as stated fails on the hook: with the refresh token gone, \<^verbatim>\<open>performTokenRefresh\<close>
  returns \<^verbatim>\<open>false\<close> without a network call, but the access token and the expiry stay
  stored, the store stays authenticated and no signal is given.
\<close>

theorem performTokenRefresh_without_token_keeps_session:
  "snd (performTokenRefresh (\<lambda>i c. HttpError 403) (removeItem ''refreshToken'' session)) = False
   \<and> netlog (fst (performTokenRefresh (\<lambda>i c. HttpError 403) (removeItem ''refreshToken'' session))) = []
   \<and> getItem (fst (performTokenRefresh (\<lambda>i c. HttpError 403) (removeItem ''refreshToken'' session)))
        ''accessToken'' = Some ''access-1''
   \<and> getItem (fst (performTokenRefresh (\<lambda>i c. HttpError 403) (removeItem ''refreshToken'' session)))
        ''tokenExpiry'' = Some ''1300000''
   \<and> isAuthenticated (store (fst (performTokenRefresh (\<lambda>i c. HttpError 403) (removeItem ''refreshToken'' session))))
   \<and> toasts (fst (performTokenRefresh (\<lambda>i c. HttpError 403) (removeItem ''refreshToken'' session))) = []
   \<and> events (fst (performTokenRefresh (\<lambda>i c. HttpError 403) (removeItem ''refreshToken'' session))) = []"
  by (simp add: performTokenRefresh_no_token(2) [OF removed_refresh_token] getItem_removeItem
        session_facts)
     (simp add: removeItem_def session_facts)


subsection \<open>Refresh failures other than 401 and 403\<close>

lemma performTokenRefresh_resume_transient:
  assumes "response_status err \<noteq> Some 401" "response_status err \<noteq> Some 403"
  shows "performTokenRefresh_resume (Rejected err) w = (w\<lparr>isRefreshingRef := False\<rparr>, False)"
  using assms by (simp add: performTokenRefresh_resume_def performTokenRefresh_catch_def)

lemma in_flight_then_idle:
  "\<not> isRefreshingRef w \<Longrightarrow> w\<lparr>isRefreshingRef := True, netlog := l, isRefreshingRef := False\<rparr> = w\<lparr>netlog := l\<rparr>"
  by (cases w) simp

text \<open>
  Claim C2, as amended. When the refresh request settles with an error other than 401 and
  403 (an error status or no reply at all), the hook's \<^verbatim>\<open>performTokenRefresh\<close>, started
  while no refresh is in flight, returns \<^verbatim>\<open>false\<close> and changes nothing but the log of
  requests: the stored triple, the store, the toasts and the events are as before. The
  two other refresh paths treat every refresh failure alike: \<^verbatim>\<open>refreshToken\<close> of the
  authentication service removes the three keys and returns \<^verbatim>\<open>null\<close>, and the response
  interceptor removes the three keys and dispatches \<^verbatim>\<open>auth:session-expired\<close>.
\<close>

theorem refresh_failure_other_than_401_403:
  assumes idle: "\<not> isRefreshingRef w" and rt: "truthy (getItem w ''refreshToken'')"
    and reply: "net (length (netlog w)) (onRequest w (refreshRequest (the (getItem w ''refreshToken'')))) = err"
    and failed: "settle err = Rejected err"
    and other: "response_status err \<noteq> Some 401" "response_status err \<noteq> Some 403"
  shows "performTokenRefresh net w =
           (w\<lparr>netlog := netlog w @ [onRequest w (refreshRequest (the (getItem w ''refreshToken'')))]\<rparr>, False)
       \<and> credentials (fst (performTokenRefresh net w)) = credentials w
       \<and> store (fst (performTokenRefresh net w)) = store w
       \<and> toasts (fst (performTokenRefresh net w)) = toasts w
       \<and> events (fst (performTokenRefresh net w)) = events w
       \<and> refreshToken net w =
           (logout (w\<lparr>netlog := netlog w @ [onRequest w (refreshRequest (the (getItem w ''refreshToken'')))]\<rparr>), None)
       \<and> credentials (fst (refreshToken net w)) = (None, None, None)
       \<and> onRefreshSettled (Rejected err) err0 c0 w = (refresh_failed w, GiveUp err0)
       \<and> credentials (refresh_failed w) = (None, None, None)
       \<and> events (refresh_failed w) = events w @ [''auth:session-expired'']"
proof -
  let ?rq = "onRequest w (refreshRequest (the (getItem w ''refreshToken'')))"
  have p: "performTokenRefresh net w = (w\<lparr>netlog := netlog w @ [?rq]\<rparr>, False)"
    by (simp add: performTokenRefresh_run [OF idle rt] reply failed
          performTokenRefresh_resume_transient [OF other] in_flight_then_idle [OF idle])
  have r: "refreshToken net w = (logout (w\<lparr>netlog := netlog w @ [?rq]\<rparr>), None)"
    using rt by (simp add: refreshToken_def Let_def httpClient_refreshRequest reply failed)
  have e: "events (refresh_failed w) = events w @ [''auth:session-expired'']"
    by (simp add: refresh_failed_def removeItem_def)
  show ?thesis
    by (simp add: p r e credentials_logout credentials_refresh_failed onRefreshSettled_cases)
qed

text \<open>Claim C2 as amended, on the example session with a server answering 503.\<close>

theorem refresh_failure_other_than_401_403_witness:
  "performTokenRefresh (\<lambda>i c. HttpError 503) session =
     (session\<lparr>netlog := [(refreshRequest ''refresh-1'')\<lparr>authorization := Some ''Bearer access-1''\<rparr>]\<rparr>, False)
   \<and> credentials (fst (performTokenRefresh (\<lambda>i c. HttpError 503) session))
       = (Some ''access-1'', Some ''refresh-1'', Some ''1300000'')
   \<and> isAuthenticated (store (fst (performTokenRefresh (\<lambda>i c. HttpError 503) session)))
   \<and> toasts (fst (performTokenRefresh (\<lambda>i c. HttpError 503) session)) = []
   \<and> credentials (fst (refreshToken (\<lambda>i c. HttpError 503) session)) = (None, None, None)"
proof -
  have idle: "\<not> isRefreshingRef session" by (simp add: session_facts)
  have rt: "truthy (getItem session ''refreshToken'')" by (simp add: session_facts truthy_def)
  have failed: "settle (HttpError 503) = Rejected (HttpError 503)" by (simp add: settle_cases)
  have other: "response_status (HttpError 503) \<noteq> Some 401" "response_status (HttpError 503) \<noteq> Some 403"
    by simp_all
  note T = refresh_failure_other_than_401_403
    [where net = "\<lambda>i c. HttpError 503" and w = session and err = "HttpError 503"
        and ?err0.0 = "HttpError 401" and ?c0.0 = usersRequest,
      OF idle rt refl failed other]
  have c: "credentials session = (Some ''access-1'', Some ''refresh-1'', Some ''1300000'')"
    by (simp add: credentials_def session_facts)
  from T show ?thesis
    by (simp add: session_facts session_requests c credentials_logout)
qed

text \<open>
  Claim C2 as stated fails: a network error during the refresh clears the stored triple in
  \<^verbatim>\<open>refreshToken\<close> of the authentication service, and in the response interceptor it
  clears the triple and dispatches the session-expired event.
\<close>

theorem authService_refreshToken_clears_on_network_error:
  "credentials session = (Some ''access-1'', Some ''refresh-1'', Some ''1300000'')
   \<and> credentials (fst (refreshToken (\<lambda>i c. NetError ''ERR_NETWORK'') session)) = (None, None, None)
   \<and> snd (refreshToken (\<lambda>i c. NetError ''ERR_NETWORK'') session) = None
   \<and> credentials (fst (httpClient (\<lambda>i c. if i = 0 then HttpError 401 else NetError ''ERR_NETWORK'')
                          usersRequest session)) = (None, None, None)
   \<and> events (fst (httpClient (\<lambda>i c. if i = 0 then HttpError 401 else NetError ''ERR_NETWORK'')
                     usersRequest session)) = [''auth:session-expired'']"
proof -
  have rt: "truthy (getItem session ''refreshToken'')" by (simp add: session_facts truthy_def)
  have c: "credentials session = (Some ''access-1'', Some ''refresh-1'', Some ''1300000'')"
    by (simp add: credentials_def session_facts)
  have r: "refreshToken (\<lambda>i c. NetError ''ERR_NETWORK'') session =
      (logout (session\<lparr>netlog := netlog session @ [onRequest session (refreshRequest (the (getItem session ''refreshToken'')))]\<rparr>), None)"
    using rt by (simp add: refreshToken_def Let_def httpClient_refreshRequest settle_cases)
  let ?net = "\<lambda>(i::nat) (c::request). if i = 0 then HttpError 401 else NetError ''ERR_NETWORK''"
  have na: "\<not> str_includes (url usersRequest) ''/auth/''" by (simp add: usersRequest_def)
  have nr: "\<not> retry usersRequest" by (simp add: usersRequest_def)
  have st: "response_status (?net (length (netlog session)) (onRequest session usersRequest)) = Some 401
          \<or> response_status (?net (length (netlog session)) (onRequest session usersRequest)) = Some 403"
    by (simp add: session_facts)
  note H = httpClient_unauthorized [where config = usersRequest and net = ?net and w = session,
      OF na nr st, unfolded Let_def]
  have h: "fst (httpClient ?net usersRequest session) =
      refresh_failed (session\<lparr>netlog := netlog session @ [onRequest session usersRequest,
          onRequest session (refreshRequest (the (getItem session ''refreshToken'')))]\<rparr>)"
    using rt by (simp add: H session_facts)
  have e: "events (refresh_failed w) = events w @ [''auth:session-expired'']" for w
    by (simp add: refresh_failed_def removeItem_def)
  show ?thesis
    by (simp add: c r h e credentials_logout credentials_refresh_failed session_facts)
qed


subsection \<open>Logout while a refresh is in flight\<close>

lemma issued_same_clock: "clock w' = clock w \<Longrightarrow> issued a r e w' = issued a r e w"
  by (simp add: issued_def expiry_string_def)

lemma store_logout_fields:
  "clock (store_logout w) = clock w" "netlog (store_logout w) = netlog w"
  "toasts (store_logout w) = toasts w" "events (store_logout w) = events w"
  "isRefreshingRef (store_logout w) = isRefreshingRef w"
  "refreshTimeoutRef (store_logout w) = refreshTimeoutRef w"
  "store (store_logout w) = \<lparr>user = None, token = None, isAuthenticated = False,
                              loadingState = IDLE, error = None\<rparr>"
  by (simp_all add: store_logout_def removeItem_def)

lemma store_resume_resolved:
  "store (fst (performTokenRefresh_resume (Resolved d) w)) = store w"
  "snd (performTokenRefresh_resume (Resolved d) w) = True"
  by (simp_all add: performTokenRefresh_resume_def Let_def storeTokens_def setItem_def)

text \<open>
  Claim C4, as amended. A logout clears the stored triple, and a refresh that was in
  flight and then resolves successfully writes the triple of its reply all the same: the
  hook's continuation after the store's logout or after \<^verbatim>\<open>clearTokens\<close>, and the
  interceptor's continuation when the reply carries an access token. What stays logged
  out is the store: \<^verbatim>\<open>isAuthenticated\<close> is false and its token is null.
\<close>

theorem refresh_resolving_after_logout_writes_credentials:
  "credentials (store_logout w) = (None, None, None)
   \<and> credentials (fst (performTokenRefresh_resume (Resolved d) (store_logout w)))
       = issued (data_accessToken d) (data_refreshToken d) (data_expiresIn d) w
   \<and> snd (performTokenRefresh_resume (Resolved d) (store_logout w)) = True
   \<and> store (fst (performTokenRefresh_resume (Resolved d) (store_logout w)))
       = \<lparr>user = None, token = None, isAuthenticated = False, loadingState = IDLE, error = None\<rparr>
   \<and> credentials (fst (performTokenRefresh_resume (Resolved d) (clearTokens w)))
       = issued (data_accessToken d) (data_refreshToken d) (data_expiresIn d) w
   \<and> credentials (fst (onRefreshSettled (Resolved d) err c (store_logout w)))
       = (if truthy (data_accessToken d)
          then issued (data_accessToken d) (data_refreshToken d) (data_expiresIn d) w
          else (None, None, None))"
proof -
  have ck: "clock (clearTokens w) = clock w"
    by (simp add: clearTokens_def clock_removeItem)
  show ?thesis
    by (simp add: credentials_resume credentials_onRefreshSettled credentials_store_logout
          store_resume_resolved store_logout_fields issued_same_clock [OF store_logout_fields(1)]
          issued_same_clock [OF ck])
qed

lemma session_begin:
  "performTokenRefresh_begin session =
     (session\<lparr>isRefreshingRef := True,
        netlog := [(refreshRequest ''refresh-1'')\<lparr>authorization := Some ''Bearer access-1''\<rparr>]\<rparr>,
      Awaiting ((refreshRequest ''refresh-1'')\<lparr>authorization := Some ''Bearer access-1''\<rparr>))"
proof -
  have idle: "\<not> isRefreshingRef session" by (simp add: session_facts)
  have rt: "truthy (getItem session ''refreshToken'')" by (simp add: session_facts truthy_def)
  show ?thesis
    by (simp add: performTokenRefresh_begin_sends [OF idle rt] session_facts session_requests)
qed

lemma issued_example:
  "clock w = 1000000 \<Longrightarrow>
     issued (Some ''access-2'') (Some ''refresh-2'') (Some 60) w
       = (Some ''access-2'', Some ''refresh-2'', Some ''1060000'')"
  by (simp add: issued_def js_string_def expiry_string_def number_toString_def toString_examples)

text \<open>
  Claim C4 as stated fails: on the example session the refresh is begun, the store logs
  out (the triple is cleared), and the resolution of the refresh stores the new triple.
\<close>

theorem logout_during_refresh_is_overwritten:
  "snd (performTokenRefresh_begin session)
     = Awaiting ((refreshRequest ''refresh-1'')\<lparr>authorization := Some ''Bearer access-1''\<rparr>)
   \<and> credentials (store_logout (fst (performTokenRefresh_begin session))) = (None, None, None)
   \<and> credentials (fst (performTokenRefresh_resume (Resolved (TokenData ''access-2'' ''refresh-2'' 60))
                          (store_logout (fst (performTokenRefresh_begin session)))))
       = (Some ''access-2'', Some ''refresh-2'', Some ''1060000'')
   \<and> snd (performTokenRefresh_resume (Resolved (TokenData ''access-2'' ''refresh-2'' 60))
             (store_logout (fst (performTokenRefresh_begin session)))) = True"
proof -
  have ck: "clock (store_logout (fst (performTokenRefresh_begin session))) = 1000000"
    by (simp add: session_begin store_logout_fields session_facts)
  show ?thesis
    by (simp add: credentials_store_logout credentials_resume store_resume_resolved
          issued_same_clock [OF store_logout_fields(1)] issued_example)
       (simp add: session_begin session_facts issued_example)
qed

text \<open>Claim C4 as amended, on the example session.\<close>

theorem refresh_resolving_after_logout_writes_credentials_witness:
  "credentials (fst (performTokenRefresh_resume (Resolved (TokenData ''access-2'' ''refresh-2'' 60))
                       (store_logout session)))
     = (Some ''access-2'', Some ''refresh-2'', Some ''1060000'')
   \<and> isAuthenticated (store (fst (performTokenRefresh_resume
         (Resolved (TokenData ''access-2'' ''refresh-2'' 60)) (store_logout session)))) = False"
  using refresh_resolving_after_logout_writes_credentials
    [of session "TokenData ''access-2'' ''refresh-2'' 60"]
  by (simp add: issued_example session_facts)


subsection \<open>A second refresh while one is in flight\<close>

lemma performTokenRefresh_begin_Awaiting:
  assumes "performTokenRefresh_begin w = (w1, Awaiting c)"
  shows "\<not> isRefreshingRef w" "truthy (getItem w ''refreshToken'')"
    "c = onRequest w (refreshRequest (the (getItem w ''refreshToken'')))"
    "w1 = w\<lparr>isRefreshingRef := True, netlog := netlog w @ [c]\<rparr>"
  using assms
  by (auto simp: performTokenRefresh_begin_def Let_def send_def performTokenRefresh_catch_def
        split: if_splits)

text \<open>
  Claim C1, as amended. Once the hook's \<^verbatim>\<open>performTokenRefresh\<close> has sent its refresh
  request and waits for the reply, a second invocation returns \<^verbatim>\<open>false\<close> at once, hands
  nothing to the network and leaves the state as it is, so the pair issues one refresh
  request; the second caller does not wait for, or share, the outcome of the first. The
  response interceptor does not look at the flag: while the hook's refresh is in flight,
  an unauthorized reply to a request outside \<^verbatim>\<open>/auth/\<close> still makes it post a refresh
  request of its own.
\<close>

theorem second_refresh_while_first_in_flight:
  assumes "performTokenRefresh_begin w = (w1, Awaiting c)"
  shows "netlog w1 = netlog w @ [c]
       \<and> url c = ''/auth/tokens/refresh''
       \<and> performTokenRefresh_begin w1 = (w1, Done False)
       \<and> performTokenRefresh net w1 = (w1, False)
       \<and> (\<forall>err c0. (response_status err = Some 401 \<or> response_status err = Some 403)
              \<and> \<not> retry c0 \<and> \<not> str_includes (url c0) ''/auth/'' \<longrightarrow>
            onRejected err c0 w1 =
              (w1, RefreshFirst (c0\<lparr>retry := True\<rparr>) (refreshRequest (the (getItem w1 ''refreshToken'')))))
       \<and> netlog (fst (httpClient net (refreshRequest (the (getItem w1 ''refreshToken''))) w1))
           = netlog w @ [c, onRequest w1 (refreshRequest (the (getItem w1 ''refreshToken'')))]"
proof -
  note a = performTokenRefresh_begin_Awaiting [OF assms]
  have busy: "isRefreshingRef w1" by (simp add: a(4))
  have rt: "truthy (getItem w1 ''refreshToken'')" using a(2) by (simp add: a(4))
  have n: "netlog w1 = netlog w @ [c]" by (simp add: a(4))
  have u: "url c = ''/auth/tokens/refresh''" by (simp add: a(3) onRequest_same refreshRequest_fields)
  have i: "onRejected err c0 w1 =
              (w1, RefreshFirst (c0\<lparr>retry := True\<rparr>) (refreshRequest (the (getItem w1 ''refreshToken''))))"
    if "response_status err = Some 401 \<or> response_status err = Some 403"
      "\<not> retry c0" "\<not> str_includes (url c0) ''/auth/''" for err c0
    using onRejected_unauthorized [OF that] rt by simp
  show ?thesis
    using i by (simp add: n u performTokenRefresh_busy [OF busy] httpClient_refreshRequest)
qed

text \<open>Claim C1 as amended, on the example session.\<close>

theorem second_refresh_while_first_in_flight_witness:
  "performTokenRefresh_begin (fst (performTokenRefresh_begin session))
     = (fst (performTokenRefresh_begin session), Done False)
   \<and> netlog (fst (performTokenRefresh_begin session))
     = [(refreshRequest ''refresh-1'')\<lparr>authorization := Some ''Bearer access-1''\<rparr>]
   \<and> calls_to ''/auth/tokens/refresh''
       (netlog (fst (httpClient (\<lambda>i c. HttpError 500) (refreshRequest ''refresh-1'')
                       (fst (performTokenRefresh_begin session))))) = 2"
proof -
  note T = second_refresh_while_first_in_flight [OF session_begin, of "\<lambda>i c. HttpError 500"]
  have g: "getItem (session\<lparr>isRefreshingRef := True, netlog := l\<rparr>) ''refreshToken'' = Some ''refresh-1''" for l
    by (simp add: session_facts)
  from T show ?thesis
    by (simp add: session_begin g session_facts calls_to_def refreshRequest_fields onRequest_same)
qed

text \<open>
  Claim C1 as stated fails: the second caller is told \<^verbatim>\<open>false\<close> while the first one, whose
  request succeeds, is told \<^verbatim>\<open>true\<close>; and two refresh posts of the interceptor that
  overlap are both handed to the network.
\<close>

theorem concurrent_refresh_callers_get_different_outcomes:
  "snd (performTokenRefresh_begin session)
     = Awaiting ((refreshRequest ''refresh-1'')\<lparr>authorization := Some ''Bearer access-1''\<rparr>)
   \<and> snd (performTokenRefresh_begin (fst (performTokenRefresh_begin session))) = Done False
   \<and> snd (performTokenRefresh_resume (Resolved (TokenData ''access-2'' ''refresh-2'' 60))
             (fst (performTokenRefresh_begin (fst (performTokenRefresh_begin session))))) = True
   \<and> calls_to ''/auth/tokens/refresh''
        (netlog (snd (send (refreshRequest ''refresh-1'')
                   (snd (send (refreshRequest ''refresh-1'') session))))) = 2"
proof -
  have busy: "isRefreshingRef (fst (performTokenRefresh_begin session))"
    by (simp add: session_begin)
  have "calls_to ''/auth/tokens/refresh''
        (netlog (snd (send (refreshRequest ''refresh-1'')
                   (snd (send (refreshRequest ''refresh-1'') session))))) = 2"
    by (simp add: send_def Let_def calls_to_def onRequest_same refreshRequest_fields session_facts)
  then show ?thesis
    by (simp add: performTokenRefresh_busy(1) [OF busy] store_resume_resolved)
       (simp add: session_begin)
qed


subsection \<open>The proactive timer\<close>

lemma getTimeUntilExpiry_fields [simp]:
  "getTimeUntilExpiry (w\<lparr>refreshTimeoutRef := tm\<rparr>) = getTimeUntilExpiry w"
  "getTimeUntilExpiry (w\<lparr>isRefreshingRef := b\<rparr>) = getTimeUntilExpiry w"
  "getTimeUntilExpiry (w\<lparr>netlog := l\<rparr>) = getTimeUntilExpiry w"
  by (simp_all add: getTimeUntilExpiry_def Let_def split: option.splits)

lemma scheduleTokenRefresh_arms:
  "refreshTimeoutRef (scheduleTokenRefresh isAuth w) =
     (if isAuth
      then Some \<lparr>delay = (case getTimeUntilExpiry w of None \<Rightarrow> 0
                          | Some t \<Rightarrow> max 0 (t - TOKEN_REFRESH_BUFFER)),
                 captured_isAuthenticated = True\<rparr>
      else None)"
  by (cases "getTimeUntilExpiry w") (simp_all add: scheduleTokenRefresh_def Let_def)

lemma scheduleTokenRefresh_frame:
  "localStorage (scheduleTokenRefresh isAuth w) = localStorage w"
  "store (scheduleTokenRefresh isAuth w) = store w"
  "toasts (scheduleTokenRefresh isAuth w) = toasts w"
  "events (scheduleTokenRefresh isAuth w) = events w"
  "netlog (scheduleTokenRefresh isAuth w) = netlog w"
  "clock (scheduleTokenRefresh isAuth w) = clock w"
  "isRefreshingRef (scheduleTokenRefresh isAuth w) = isRefreshingRef w"
  by (simp_all add: scheduleTokenRefresh_def Let_def)

lemma credentials_scheduleTokenRefresh:
  "credentials (scheduleTokenRefresh isAuth w) = credentials w"
  by (simp add: credentials_def getItem_def scheduleTokenRefresh_frame)

lemma fireRefreshTimer_armed:
  "refreshTimeoutRef w = Some t \<Longrightarrow>
     fireRefreshTimer net w =
       scheduleTokenRefresh (captured_isAuthenticated t)
         (fst (performTokenRefresh net (w\<lparr>refreshTimeoutRef := None\<rparr>)))"
  by (simp add: fireRefreshTimer_def refreshTimerCallback_def split: prod.splits)

lemma getTimeUntilExpiry_cleared:
  "getItem w ''tokenExpiry'' = None \<Longrightarrow> getTimeUntilExpiry w = Some 0"
  by (simp add: getTimeUntilExpiry_def truthy_def)

lemma performTokenRefresh_forbidden:
  assumes idle: "\<not> isRefreshingRef w" and rt: "truthy (getItem w ''refreshToken'')"
    and reply: "net (length (netlog w)) (onRequest w (refreshRequest (the (getItem w ''refreshToken''))))
                  = HttpError s"
    and s: "s = 401 \<or> s = 403"
  shows "performTokenRefresh net w =
     ((store_logout (w\<lparr>isRefreshingRef := True,
                       netlog := netlog w @ [onRequest w (refreshRequest (the (getItem w ''refreshToken'')))],
                       toasts := toasts w @ [''Session Expired'']\<rparr>))\<lparr>isRefreshingRef := False\<rparr>,
      False)"
  using s
  by (auto simp: performTokenRefresh_run [OF idle rt] reply settle_cases
        performTokenRefresh_resume_def performTokenRefresh_catch_def Let_def)

lemma performTokenRefresh_success:
  assumes idle: "\<not> isRefreshingRef w" and rt: "truthy (getItem w ''refreshToken'')"
    and reply: "net (length (netlog w)) (onRequest w (refreshRequest (the (getItem w ''refreshToken''))))
                  = Ok d"
  shows "performTokenRefresh net w =
     ((storeTokens (data_accessToken d) (data_refreshToken d) (data_expiresIn d)
         (w\<lparr>isRefreshingRef := True,
            netlog := netlog w @ [onRequest w (refreshRequest (the (getItem w ''refreshToken'')))]\<rparr>))
        \<lparr>isRefreshingRef := False\<rparr>,
      True)"
  by (simp add: performTokenRefresh_run [OF idle rt] reply settle_cases
        performTokenRefresh_resume_def Let_def)

lemma timer_callback_after_auth_failure:
  assumes idle: "\<not> isRefreshingRef w" and rt: "truthy (getItem w ''refreshToken'')"
    and reply: "net (length (netlog w)) (onRequest w (refreshRequest (the (getItem w ''refreshToken''))))
                  = HttpError s"
    and s: "s = 401 \<or> s = 403"
  shows "credentials (refreshTimerCallback net isAuth w) = (None, None, None)"
    and "toasts (refreshTimerCallback net isAuth w) = toasts w @ [''Session Expired'']"
    and "events (refreshTimerCallback net isAuth w) = events w"
    and "isAuthenticated (store (refreshTimerCallback net isAuth w)) = False"
    and "refreshTimeoutRef (refreshTimerCallback net isAuth w) =
           (if isAuth then Some \<lparr>delay = 0, captured_isAuthenticated = True\<rparr> else None)"
proof -
  let ?w1 = "(store_logout (w\<lparr>isRefreshingRef := True,
                       netlog := netlog w @ [onRequest w (refreshRequest (the (getItem w ''refreshToken'')))],
                       toasts := toasts w @ [''Session Expired'']\<rparr>))\<lparr>isRefreshingRef := False\<rparr>"
  have cb: "refreshTimerCallback net isAuth w = scheduleTokenRefresh isAuth ?w1"
    by (simp add: refreshTimerCallback_def
          performTokenRefresh_forbidden [where net = net and w = w and s = s, OF idle rt reply s])
  have c: "credentials ?w1 = (None, None, None)"
    by (simp add: credentials_store_logout)
  then have "getItem ?w1 ''tokenExpiry'' = None" by (simp add: credentials_def)
  then have t: "getTimeUntilExpiry ?w1 = Some 0" by (rule getTimeUntilExpiry_cleared)
  show "credentials (refreshTimerCallback net isAuth w) = (None, None, None)"
    by (simp only: cb credentials_scheduleTokenRefresh c)
  show "toasts (refreshTimerCallback net isAuth w) = toasts w @ [''Session Expired'']"
    by (simp add: cb scheduleTokenRefresh_frame store_logout_fields)
  show "events (refreshTimerCallback net isAuth w) = events w"
    by (simp add: cb scheduleTokenRefresh_frame store_logout_fields)
  show "isAuthenticated (store (refreshTimerCallback net isAuth w)) = False"
    by (simp add: cb scheduleTokenRefresh_frame store_logout_fields)
  show "refreshTimeoutRef (refreshTimerCallback net isAuth w) =
           (if isAuth then Some \<lparr>delay = 0, captured_isAuthenticated = True\<rparr> else None)"
    by (simp only: cb scheduleTokenRefresh_arms t) (simp add: TOKEN_REFRESH_BUFFER_def)
qed


lemma getItem_scheduleTokenRefresh:
  "getItem (scheduleTokenRefresh isAuth w) k = getItem w k"
  by (simp add: getItem_def scheduleTokenRefresh_frame)

lemma onRequest_scheduleTokenRefresh:
  "onRequest (scheduleTokenRefresh isAuth w) c = onRequest w c"
  by (simp add: onRequest_def getItem_scheduleTokenRefresh)

lemma getTimeUntilExpiry_session: "getTimeUntilExpiry session = Some 300000"
proof -
  have "getItem session ''tokenExpiry'' = Some (toString 1300000)"
    by (simp add: session_facts toString_examples)
  from getTimeUntilExpiry_stored [OF this] show ?thesis by (simp add: session_facts)
qed

lemma armed_session_timer:
  "refreshTimeoutRef armed_session = Some \<lparr>delay = 180000, captured_isAuthenticated = True\<rparr>"
  by (simp add: armed_session_def scheduleTokenRefresh_arms getTimeUntilExpiry_session
        TOKEN_REFRESH_BUFFER_def)

lemma fireRefreshTimer_armed_session:
  "fireRefreshTimer net armed_session
     = refreshTimerCallback net True (armed_session\<lparr>refreshTimeoutRef := None\<rparr>)"
  by (simp add: fireRefreshTimer_def armed_session_timer)

lemma armed_session_facts:
  "\<not> isRefreshingRef (armed_session\<lparr>refreshTimeoutRef := None\<rparr>)"
  "truthy (getItem (armed_session\<lparr>refreshTimeoutRef := None\<rparr>) ''refreshToken'')"
  "getItem (armed_session\<lparr>refreshTimeoutRef := None\<rparr>) ''refreshToken'' = Some ''refresh-1''"
  "netlog (armed_session\<lparr>refreshTimeoutRef := None\<rparr>) = []"
  "toasts (armed_session\<lparr>refreshTimeoutRef := None\<rparr>) = []"
  "events (armed_session\<lparr>refreshTimeoutRef := None\<rparr>) = []"
  "clock (armed_session\<lparr>refreshTimeoutRef := None\<rparr>) = 1000000"
  "onRequest (armed_session\<lparr>refreshTimeoutRef := None\<rparr>) c = onRequest session c"
  by (simp_all add: armed_session_def scheduleTokenRefresh_frame getItem_scheduleTokenRefresh
        onRequest_scheduleTokenRefresh session_facts truthy_def)

lemma armed_session_reads:
  "getItem armed_session k = getItem session k"
  "onRequest armed_session c = onRequest session c"
  by (simp_all add: armed_session_def getItem_scheduleTokenRefresh onRequest_scheduleTokenRefresh)

text \<open>
  Only a cleanup that runs after the callback has re-armed the timer cancels it; one that
  runs between the refresh and the callback's last call does not keep the timer from
  being armed.
\<close>

lemma cleanup_and_rearm:
  "refreshTimeoutRef (clearTimeouts (scheduleTokenRefresh True w)) = None"
  "refreshTimeoutRef (scheduleTokenRefresh True (clearTimeouts w))
     = refreshTimeoutRef (scheduleTokenRefresh True w)"
proof -
  have "getTimeUntilExpiry (clearTimeouts w) = getTimeUntilExpiry w"
    by (simp add: getTimeUntilExpiry_def clearTimeouts_def getItem_def Let_def split: option.splits)
  then show "refreshTimeoutRef (scheduleTokenRefresh True (clearTimeouts w))
     = refreshTimeoutRef (scheduleTokenRefresh True w)"
    by (simp add: scheduleTokenRefresh_arms)
  show "refreshTimeoutRef (clearTimeouts (scheduleTokenRefresh True w)) = None"
    by (simp add: clearTimeouts_def)
qed

text \<open>
  Claim C5, evaluated where the code departs from it. The proactive timer of the example
  session fires and the refresh endpoint answers 403: the stored triple is cleared, one
  \<^verbatim>\<open>Session Expired\<close> toast is shown and the store is logged out, as the claim says; but
  the callback then calls the \<^verbatim>\<open>scheduleTokenRefresh\<close> that armed it, whose
  \<^verbatim>\<open>isAuthenticated\<close> is still the \<^verbatim>\<open>true\<close> of its render, and a new timer is armed with
  delay 0.
\<close>

theorem timer_refresh_403_rearms_timer:
  "refreshTimeoutRef armed_session = Some \<lparr>delay = 180000, captured_isAuthenticated = True\<rparr>
   \<and> credentials (fireRefreshTimer (\<lambda>i c. HttpError 403) armed_session) = (None, None, None)
   \<and> toasts (fireRefreshTimer (\<lambda>i c. HttpError 403) armed_session) = [''Session Expired'']
   \<and> events (fireRefreshTimer (\<lambda>i c. HttpError 403) armed_session) = []
   \<and> isAuthenticated (store (fireRefreshTimer (\<lambda>i c. HttpError 403) armed_session)) = False
   \<and> refreshTimeoutRef (fireRefreshTimer (\<lambda>i c. HttpError 403) armed_session)
       = Some \<lparr>delay = 0, captured_isAuthenticated = True\<rparr>"
proof -
  note T = timer_callback_after_auth_failure
    [where net = "\<lambda>i c. HttpError 403" and w = "armed_session\<lparr>refreshTimeoutRef := None\<rparr>"
       and s = 403 and isAuth = True, OF armed_session_facts(1) armed_session_facts(2) refl]
  show ?thesis
    using T by (simp add: fireRefreshTimer_armed_session armed_session_timer armed_session_facts)
qed


lemma timer_callback_after_success:
  assumes idle: "\<not> isRefreshingRef w" and rt: "truthy (getItem w ''refreshToken'')"
    and reply: "net (length (netlog w)) (onRequest w (refreshRequest (the (getItem w ''refreshToken''))))
                  = Ok (TokenData a r e)"
  shows "refreshTimeoutRef (refreshTimerCallback net isAuth w) =
           (if isAuth
            then Some \<lparr>delay = max 0 (max 0 (e * 1000) - TOKEN_REFRESH_BUFFER),
                       captured_isAuthenticated = True\<rparr>
            else None)"
    and "netlog (refreshTimerCallback net isAuth w)
           = netlog w @ [onRequest w (refreshRequest (the (getItem w ''refreshToken'')))]"
proof -
  let ?w0 = "w\<lparr>isRefreshingRef := True,
            netlog := netlog w @ [onRequest w (refreshRequest (the (getItem w ''refreshToken'')))]\<rparr>"
  let ?w1 = "(storeTokens (Some a) (Some r) (Some e) ?w0)\<lparr>isRefreshingRef := False\<rparr>"
  have cb: "refreshTimerCallback net isAuth w = scheduleTokenRefresh isAuth ?w1"
    by (simp add: refreshTimerCallback_def
          performTokenRefresh_success [where net = net and w = w, OF idle rt reply])
  have "getItem ?w1 ''tokenExpiry'' = Some (toString (clock w + e * 1000))"
    by (simp add: getItem_storeTokens expiry_string_def number_toString_def)
  from getTimeUntilExpiry_stored [OF this]
  have t: "getTimeUntilExpiry ?w1 = Some (max 0 (e * 1000))"
    by (simp add: clock_storeTokens)
  show "refreshTimeoutRef (refreshTimerCallback net isAuth w) =
           (if isAuth
            then Some \<lparr>delay = max 0 (max 0 (e * 1000) - TOKEN_REFRESH_BUFFER),
                       captured_isAuthenticated = True\<rparr>
            else None)"
    by (simp only: cb scheduleTokenRefresh_arms t) simp
  show "netlog (refreshTimerCallback net isAuth w)
           = netlog w @ [onRequest w (refreshRequest (the (getItem w ''refreshToken'')))]"
    by (simp add: cb scheduleTokenRefresh_frame storeTokens_netlog)
qed

lemma expired_session_facts:
  "isTokenExpired (updateActivity (advance 300000 session))"
  "\<not> isRefreshingRef (updateActivity (advance 300000 session))"
  "truthy (getItem (updateActivity (advance 300000 session)) ''refreshToken'')"
  "refreshTimeoutRef (updateActivity (advance 300000 session)) = None"
proof -
  have g: "getItem (updateActivity (advance 300000 session)) k = getItem session k" for k
    by (simp add: getItem_def updateActivity_def advance_def)
  have "getItem (updateActivity (advance 300000 session)) ''tokenExpiry'' = Some (toString 1300000)"
    by (simp add: g session_facts toString_examples)
  from isTokenExpired_stored [OF this]
  show "isTokenExpired (updateActivity (advance 300000 session))"
    by (simp add: updateActivity_def advance_def session_facts)
  show "\<not> isRefreshingRef (updateActivity (advance 300000 session))"
    by (simp add: updateActivity_def advance_def session_facts)
  show "truthy (getItem (updateActivity (advance 300000 session)) ''refreshToken'')"
    by (simp add: g session_facts truthy_def)
  show "refreshTimeoutRef (updateActivity (advance 300000 session)) = None"
    by (simp add: updateActivity_def advance_def session_facts)
qed

text \<open>
  Claim C8, evaluated where the code departs from it. On the example session the timer is
  armed for max(0, 300000 - 120000) = 180000 ms; when it fires, one refresh request is
  sent; after a successful refresh (3600 s of validity) it is re-armed for 3480000 ms;
  after a 401 from the refresh endpoint the store is logged out and the timer is re-armed
  all the same, with delay 0. The activity handler, in contrast, schedules nothing after
  the same failure.
\<close>

theorem proactive_timer_rearms_after_auth_failure:
  "refreshTimeoutRef (scheduleTokenRefresh True session)
     = Some \<lparr>delay = 180000, captured_isAuthenticated = True\<rparr>
   \<and> netlog (fireRefreshTimer (\<lambda>i c. Ok (TokenData ''access-2'' ''refresh-2'' 3600)) armed_session)
     = [(refreshRequest ''refresh-1'')\<lparr>authorization := Some ''Bearer access-1''\<rparr>]
   \<and> refreshTimeoutRef (fireRefreshTimer (\<lambda>i c. Ok (TokenData ''access-2'' ''refresh-2'' 3600)) armed_session)
     = Some \<lparr>delay = 3480000, captured_isAuthenticated = True\<rparr>
   \<and> isAuthenticated (store (fireRefreshTimer (\<lambda>i c. HttpError 401) armed_session)) = False
   \<and> refreshTimeoutRef (fireRefreshTimer (\<lambda>i c. HttpError 401) armed_session)
     = Some \<lparr>delay = 0, captured_isAuthenticated = True\<rparr>
   \<and> refreshTimeoutRef (handleActivity (\<lambda>i c. HttpError 401) True (advance 300000 session)) = None"
proof -
  note S = timer_callback_after_success
    [where net = "\<lambda>i c. Ok (TokenData ''access-2'' ''refresh-2'' 3600)"
       and w = "armed_session\<lparr>refreshTimeoutRef := None\<rparr>" and isAuth = True
       and a = "''access-2''" and r = "''refresh-2''" and e = 3600,
      OF armed_session_facts(1) armed_session_facts(2) refl]
  note F = timer_callback_after_auth_failure
    [where net = "\<lambda>i c. HttpError 401" and w = "armed_session\<lparr>refreshTimeoutRef := None\<rparr>"
       and s = 401 and isAuth = True, OF armed_session_facts(1) armed_session_facts(2) refl]
  note A = performTokenRefresh_forbidden
    [where net = "\<lambda>i c. HttpError 401" and w = "updateActivity (advance 300000 session)" and s = 401,
      OF expired_session_facts(2) expired_session_facts(3) refl]
  have h: "refreshTimeoutRef (handleActivity (\<lambda>i c. HttpError 401) True (advance 300000 session)) = None"
    by (simp add: handleActivity_def Let_def expired_session_facts(1) A store_logout_fields
          expired_session_facts(4))
  show ?thesis
    using S F h
    by (simp add: fireRefreshTimer_armed_session armed_session_timer [unfolded armed_session_def]
          armed_session_facts armed_session_reads session_facts session_requests
          TOKEN_REFRESH_BUFFER_def)
qed

end
